theory Spec2Isabelle
  imports Main "HOL-Library.Word" "HOL-Library.Multiset"
begin

section \<open>Strings of the batch processor\<close>

text \<open>
  A Python \<open>str\<close> is a sequence of Unicode code points and is modelled as a list of
  natural numbers. \<open>py\<close> turns a literal of the source into such a list and \<open>cp\<close> gives the
  code point of one of its characters. File contents are lists of bytes.
\<close>

type_synonym pystr = "nat list"

type_synonym bytes = "8 word list"

definition cp :: "char \<Rightarrow> nat" where
  "cp c = of_char c"

definition py :: "string \<Rightarrow> pystr" where
  "py s = map cp s"

text \<open>
  The class \<open>\d\<close> of Python's \<open>re\<close> module, for a \<open>str\<close> pattern: the characters of the
  general category Nd (decimal digits) of the Unicode database, here in version 14.0 as
  CPython 3.11 has it. The ranges are inclusive; the first is \<open>0\<close> to \<open>9\<close>.
\<close>

definition nd_ranges :: "(nat \<times> nat) list" where
  "nd_ranges =
     [(48, 57), (1632, 1641), (1776, 1785), (1984, 1993), (2406, 2415), (2534, 2543),
      (2662, 2671), (2790, 2799), (2918, 2927), (3046, 3055), (3174, 3183), (3302, 3311),
      (3430, 3439), (3558, 3567), (3664, 3673), (3792, 3801), (3872, 3881), (4160, 4169),
      (4240, 4249), (6112, 6121), (6160, 6169), (6470, 6479), (6608, 6617), (6784, 6793),
      (6800, 6809), (6992, 7001), (7088, 7097), (7232, 7241), (7248, 7257), (42528, 42537),
      (43216, 43225), (43264, 43273), (43472, 43481), (43504, 43513), (43600, 43609),
      (44016, 44025), (65296, 65305), (66720, 66729), (68912, 68921), (69734, 69743),
      (69872, 69881), (69942, 69951), (70096, 70105), (70384, 70393), (70736, 70745),
      (70864, 70873), (71248, 71257), (71360, 71369), (71472, 71481), (71904, 71913),
      (72016, 72025), (72784, 72793), (73040, 73049), (73120, 73129), (92768, 92777),
      (92864, 92873), (93008, 93017), (120782, 120831), (123200, 123209), (123632, 123641),
      (125264, 125273), (130032, 130041)]"

definition is_digit :: "nat \<Rightarrow> bool" where
  "is_digit c = list_ex (\<lambda>(lo, hi). lo \<le> c \<and> c \<le> hi) nd_ranges"

text \<open>The ranges \<open>0-9\<close>, \<open>A-Z\<close> and \<open>a-z\<close> of a character class.\<close>

definition is_ascii_digit :: "nat \<Rightarrow> bool" where
  "is_ascii_digit c = (cp (CHR ''0'') \<le> c \<and> c \<le> cp (CHR ''9''))"

definition is_upper :: "nat \<Rightarrow> bool" where
  "is_upper c = (cp (CHR ''A'') \<le> c \<and> c \<le> cp (CHR ''Z''))"

definition is_lower :: "nat \<Rightarrow> bool" where
  "is_lower c = (cp (CHR ''a'') \<le> c \<and> c \<le> cp (CHR ''z''))"

text \<open>\<open>str.startswith\<close> and \<open>str.endswith\<close>.\<close>

definition startswith :: "pystr \<Rightarrow> pystr \<Rightarrow> bool" where
  "startswith s p = (take (length p) s = p)"

definition endswith :: "pystr \<Rightarrow> pystr \<Rightarrow> bool" where
  "endswith s p = (length p \<le> length s \<and> drop (length s - length p) s = p)"

subsection \<open>sanitize\_filename\<close>

text \<open>
  \<^verbatim>\<open>return re.sub(r'[^A-Za-z0-9_.-]', '_', filename)\<close>:
  every character outside the class is replaced by an underscore, the others are kept.
\<close>

definition allowed_char :: "nat \<Rightarrow> bool" where
  "allowed_char c =
     (is_upper c \<or> is_lower c \<or> is_ascii_digit c \<or> c = cp (CHR ''_'') \<or> c = cp (CHR ''.'') \<or> c = cp (CHR ''-''))"

definition sanitize_filename :: "pystr \<Rightarrow> pystr" where
  "sanitize_filename filename = map (\<lambda>c. if allowed_char c then c else cp (CHR ''_'')) filename"

subsection \<open>Cluster number of a sequence identifier\<close>

text \<open>
  \<^verbatim>\<open>cluster_match = re.search(r'cluster_(\d+)', seq_id)\<close>
  \<^verbatim>\<open>cluster_number = cluster_match.group(1) if cluster_match else "unknown"\<close>

  \<open>re.search\<close> tries the pattern at each position from the left and returns the first
  match; \<open>\d+\<close> is greedy, so group 1 is the longest run of digits after the literal.
  \<open>re_search_digits lit\<close> is \<open>re.search\<close> for the pattern made of the literal \<open>lit\<close>
  followed by \<open>(\d+)\<close>, returning group 1.
\<close>

fun re_search_digits :: "pystr \<Rightarrow> pystr \<Rightarrow> pystr option" where
  "re_search_digits lit [] = None"
| "re_search_digits lit (c # cs) =
     (if startswith (c # cs) lit \<and> takeWhile is_digit (drop (length lit) (c # cs)) \<noteq> []
      then Some (takeWhile is_digit (drop (length lit) (c # cs)))
      else re_search_digits lit cs)"

definition cluster_number :: "pystr \<Rightarrow> pystr" where
  "cluster_number seq_id =
     (case re_search_digits (py ''cluster_'') seq_id of Some g \<Rightarrow> g | None \<Rightarrow> (py ''unknown''))"

subsection \<open>Formatting the model number\<close>

text \<open>
  \<^verbatim>\<open>f"{model_number:03}"\<close>: the decimal digits of the number, filled with zeros on the
  left up to width 3. Model numbers come from \<open>enumerate(..., start=1)\<close>, so they are
  natural numbers.
\<close>

definition digit_char :: "nat \<Rightarrow> nat" where
  "digit_char d = cp (CHR ''0'') + d mod 10"

function str_nat :: "nat \<Rightarrow> pystr" where
  "str_nat n = (if n < 10 then [digit_char n] else str_nat (n div 10) @ [digit_char (n mod 10)])"
  by pat_completeness auto
termination
  by (relation "measure (\<lambda>n. n)") auto

declare str_nat.simps [simp del]

definition format_03 :: "nat \<Rightarrow> pystr" where
  "format_03 n = replicate (3 - length (str_nat n)) (cp (CHR ''0'')) @ str_nat n"

text \<open>Reading a decimal numeral back; used to show that the formatting loses nothing.\<close>

definition digit_val :: "nat \<Rightarrow> nat" where
  "digit_val c = c - 48"

definition nat_of_str :: "pystr \<Rightarrow> nat" where
  "nat_of_str s = foldl (\<lambda>a c. 10 * a + digit_val c) 0 s"

subsection \<open>Paths\<close>

text \<open>
  \<open>os.path.join\<close> of \<open>posixpath\<close>, for two components: a component that starts with a
  slash replaces what came before; otherwise it is appended, after a slash unless the
  path so far is empty or already ends with one. With three components the source's call
  is \<open>path_join (path_join a b) c\<close>.
\<close>

definition path_join :: "pystr \<Rightarrow> pystr \<Rightarrow> pystr" where
  "path_join a b =
     (if startswith b (py ''/'') then b
      else if a = [] \<or> endswith a (py ''/'') then a @ b
      else a @ (py ''/'') @ b)"

text \<open>\<open>s.split(sep)\<close> for a one-character separator, and \<open>url.split("/")[-1]\<close>.\<close>

fun split_char :: "nat \<Rightarrow> pystr \<Rightarrow> pystr list" where
  "split_char sep [] = [[]]"
| "split_char sep (c # cs) =
     (if c = sep then [] # split_char sep cs
      else (case split_char sep cs of [] \<Rightarrow> [[c]] | x # xs \<Rightarrow> (c # x) # xs))"

definition raw_filename :: "pystr \<Rightarrow> pystr" where
  "raw_filename url = last (split_char (cp (CHR ''/'')) url)"

text \<open>
  \<open>s.replace(old, new)\<close> for a non-empty \<open>old\<close> (the source's only call has \<open>".gz"\<close>):
  the occurrences are replaced from the left, without overlap.
\<close>

function str_replace :: "pystr \<Rightarrow> pystr \<Rightarrow> pystr \<Rightarrow> pystr" where
  "str_replace old new [] = []"
| "str_replace old new (c # cs) =
     (if old \<noteq> [] \<and> startswith (c # cs) old
      then new @ str_replace old new (drop (length old) (c # cs))
      else c # str_replace old new cs)"
  by pat_completeness auto
termination
  by (relation "measure (\<lambda>(old, new, s). length s)") (auto simp: neq_Nil_conv)

section \<open>The remote service and the output tree\<close>

text \<open>
  A call of \<open>requests\<close> either raises a \<open>RequestException\<close> (connection error, timeout)
  or returns a response with a status code and a body. \<open>raise_for_status\<close> raises
  \<open>HTTPError\<close>, a \<open>RequestException\<close>, exactly for the codes from 400 to 599.
\<close>

datatype 'a http = RequestException | Response nat 'a

definition raise_for_status :: "nat \<Rightarrow> bool" where
  "raise_for_status code = (400 \<le> code \<and> code < 600)"

text \<open>
  The JSON bodies, as far as the program reads them: of a status summary the keys
  \<open>status\<close> and \<open>models\<close> (\<open>None\<close> for a missing key), of a model descriptor the two
  URLs.
\<close>

record model =
  modelcif_url :: "pystr option"
  coordinates_url :: "pystr option"

record status_json =
  status :: "pystr option"
  models :: "model list option"

text \<open>
  An element of the list \<open>model_data\<close> of \<open>fetch_model_results\<close>: sequence identifier, URL,
  model number and file type.
\<close>

type_synonym model_ref = "pystr \<times> pystr \<times> nat \<times> pystr"

text \<open>
  The environment of one run: for each sequence identifier the outcome of its \<open>n\<close>-th
  POST, for each project identifier the outcome of its \<open>n\<close>-th status request (counted
  from 0), for each URL the outcome of its download, the gzip decompressor, and, for the
  downloads handed to the pool of \<open>fetch_model_results\<close>, the order in which its workers
  get the lock. The body of a submission response is the value of
  \<open>response.json().get("project_id")\<close>.
\<close>

record env =
  http_post :: "pystr \<Rightarrow> nat \<Rightarrow> pystr option http"
  http_poll :: "pystr \<Rightarrow> nat \<Rightarrow> status_json http"
  http_get :: "pystr \<Rightarrow> bytes http"
  gunzip :: "bytes \<Rightarrow> bytes"
  lock_order :: "model_ref list \<Rightarrow> model_ref list"

record api =
  out_dir :: pystr
  sequences :: "(pystr \<times> pystr) list"

text \<open>What a thread prints, and how long it sleeps, in the order it does so.\<close>

datatype message =
    RateLimitHit nat
  | RequestError pystr
  | JobStatus pystr pystr pystr
  | StatusFetchError pystr
  | NoModels pystr
  | Extracted pystr
  | Saved pystr
  | DownloadFailed pystr
  | Loaded nat
  | ProjectStarted pystr pystr
  | AllProcessed

datatype event = Print message | Sleep nat

text \<open>
  The output tree and the events of the thread that runs \<open>process_sequences\<close> (with those
  of the download pool it waits for). Files are keyed by the path handed to \<open>open\<close>,
  directories by the path handed to \<open>os.makedirs\<close>; failures of the operating system
  (\<open>OSError\<close>) are outside the model.
\<close>

record world =
  files :: "pystr \<rightharpoonup> bytes"
  dirs :: "pystr set"
  trace :: "event list"

datatype exn = ValueError | TypeError

section \<open>SwissModelAPI\<close>

subsection \<open>submit\_request\<close>

text \<open>
  The loop \<^verbatim>\<open>while attempt <= 5\<close> of \<open>submit_request\<close>. The result is the returned
  tuple \<open>(seq_id, project_id)\<close>, or \<open>None\<close> when the loop ends without a \<open>return\<close>
  statement, as a Python function then returns \<open>None\<close>.
\<close>

function submit_loop ::
  "(nat \<Rightarrow> pystr option http) \<Rightarrow> pystr \<Rightarrow> nat \<Rightarrow> event list
   \<Rightarrow> (pystr \<times> pystr option) option \<times> event list" where
  "submit_loop post seq_id attempt tr =
     (if attempt \<le> 5 then
        (case post attempt of
           RequestException \<Rightarrow> (Some (seq_id, None), tr @ [Print (RequestError seq_id)])
         | Response code project_id \<Rightarrow>
             if code = 429 then
               submit_loop post seq_id (attempt + 1)
                 (tr @ [Print (RateLimitHit (attempt * 10)), Sleep (attempt * 10)])
             else if raise_for_status code then
               (Some (seq_id, None), tr @ [Print (RequestError seq_id)])
             else (Some (seq_id, project_id), tr))
      else (None, tr))"
  by pat_completeness auto
termination
  by (relation "measure (\<lambda>(post, seq_id, attempt, tr). 6 - attempt)") auto

declare submit_loop.simps [simp del]

definition submit_request ::
  "(nat \<Rightarrow> pystr option http) \<Rightarrow> pystr
   \<Rightarrow> (pystr \<times> pystr option) option \<times> event list" where
  "submit_request post seq_id = submit_loop post seq_id 1 []"

subsection \<open>monitor\_job\_status\<close>

text \<open>
  The loop \<^verbatim>\<open>while True\<close> of \<open>monitor_job_status\<close>; \<open>n\<close> counts the status requests made
  so far. The outer \<open>None\<close> is a loop that never returns; the returned value is the
  status summary, or Python's \<open>None\<close> for a failed job.
\<close>

partial_function (option) monitor_loop ::
  "(nat \<Rightarrow> status_json http) \<Rightarrow> pystr \<Rightarrow> pystr \<Rightarrow> nat \<Rightarrow> event list
   \<Rightarrow> (status_json option \<times> event list) option" where
  "monitor_loop poll seq_id project_id n tr =
     (case poll n of
        RequestException \<Rightarrow>
          monitor_loop poll seq_id project_id (Suc n)
            (tr @ [Sleep 10, Print (StatusFetchError project_id)])
      | Response code summary \<Rightarrow>
          if raise_for_status code then
            monitor_loop poll seq_id project_id (Suc n)
              (tr @ [Sleep 10, Print (StatusFetchError project_id)])
          else
            let st = (case status summary of Some s \<Rightarrow> s | None \<Rightarrow> (py ''UNKNOWN'')) in
            if st \<in> set [(py ''COMPLETED''), (py ''FAILED'')] then
              Some (if st = (py ''COMPLETED'') then Some summary else None,
                    tr @ [Sleep 10, Print (JobStatus project_id seq_id st)])
            else
              monitor_loop poll seq_id project_id (Suc n)
                (tr @ [Sleep 10, Print (JobStatus project_id seq_id st)]))"

definition monitor_job_status ::
  "(nat \<Rightarrow> status_json http) \<Rightarrow> pystr \<Rightarrow> pystr
   \<Rightarrow> (status_json option \<times> event list) option" where
  "monitor_job_status poll seq_id project_id = monitor_loop poll seq_id project_id 0 []"

subsection \<open>fetch\_model\_results and \_download\_and\_extract\<close>

text \<open>
  The list \<open>model_data\<close> built by the loop over \<open>enumerate(models, start=1)\<close>, from the
  model number \<open>i\<close> on.
\<close>

fun model_data_from :: "pystr \<Rightarrow> nat \<Rightarrow> model list \<Rightarrow> model_ref list" where
  "model_data_from seq_id i [] = []"
| "model_data_from seq_id i (m # ms) =
     (case modelcif_url m of Some u \<Rightarrow> [(seq_id, u, i, (py ''modelcif''))] | None \<Rightarrow> []) @
     (case coordinates_url m of Some u \<Rightarrow> [(seq_id, u, i, (py ''coordinates''))] | None \<Rightarrow> []) @
     model_data_from seq_id (Suc i) ms"

text \<open>
  Lines 154 to 172 of \<open>_download_and_extract\<close> compute the destination from the sequence
  identifier, the model number and the file type alone; they are named here so that
  theorems can speak about the destination.
\<close>

definition sub_folder :: "pystr \<Rightarrow> pystr" where
  "sub_folder file_type = (if file_type = (py ''modelcif'') then (py ''CIF'') else (py ''PDB''))"

definition file_extension :: "pystr \<Rightarrow> pystr" where
  "file_extension file_type = (if file_type = (py ''modelcif'') then (py ''.cif'') else (py ''.pdb''))"

definition cluster_folder :: "api \<Rightarrow> pystr \<Rightarrow> pystr \<Rightarrow> pystr" where
  "cluster_folder a seq_id file_type =
     path_join (path_join (out_dir a) ((py ''cluster_'') @ cluster_number seq_id @ (py ''_model'')))
       (sub_folder file_type)"

definition safe_filename :: "pystr \<Rightarrow> nat \<Rightarrow> pystr \<Rightarrow> pystr" where
  "safe_filename seq_id model_number file_type =
     sanitize_filename
       ((py ''cluster_'') @ cluster_number seq_id @ (py ''_model_'') @ format_03 model_number @
        file_extension file_type)"

fun dest_filename :: "api \<Rightarrow> model_ref \<Rightarrow> pystr" where
  "dest_filename a (seq_id, url, model_number, file_type) =
     path_join (cluster_folder a seq_id file_type)
       (safe_filename seq_id model_number file_type)"

declare dest_filename.simps [simp del]

text \<open>
  \<open>_download_and_extract\<close>: the directory is made, then, holding the lock, the URL is
  requested; only a response that passes \<open>raise_for_status\<close> is written to \<open>filename\<close>. A
  \<open>filename\<close> ending in \<open>.gz\<close> is decompressed into the name without \<open>.gz\<close> and removed.
  The source also binds \<open>raw_filename\<close>, the last component of the URL, and never reads
  it.
\<close>

fun download_and_extract :: "api \<Rightarrow> env \<Rightarrow> model_ref \<Rightarrow> world \<Rightarrow> world" where
  "download_and_extract a e (seq_id, url, model_number, file_type) w =
     (let filename = dest_filename a (seq_id, url, model_number, file_type);
          w1 = w\<lparr>dirs := insert (cluster_folder a seq_id file_type) (dirs w)\<rparr>
      in case http_get e url of
           RequestException \<Rightarrow> w1\<lparr>trace := trace w1 @ [Print (DownloadFailed url)]\<rparr>
         | Response code content \<Rightarrow>
             if raise_for_status code then
               w1\<lparr>trace := trace w1 @ [Print (DownloadFailed url)]\<rparr>
             else
               let w2 = w1\<lparr>files := (files w1)(filename \<mapsto> content)\<rparr> in
               if endswith filename (py ''.gz'') then
                 let extracted_filename = str_replace (py ''.gz'') [] filename in
                 w2\<lparr>files := (files w2)(extracted_filename := Some (gunzip e content),
                                           filename := None),
                    trace := trace w2 @ [Print (Extracted extracted_filename)]\<rparr>
               else w2\<lparr>trace := trace w2 @ [Print (Saved filename)]\<rparr>)"

declare download_and_extract.simps [simp del]

text \<open>
  \<open>fetch_model_results\<close>. \<open>fetch_refs\<close> is the list \<open>model_data\<close> that lines 130 to 135
  build from \<^verbatim>\<open>status_json.get("models", [])\<close>. The pool of five workers runs
  \<open>_download_and_extract\<close> on every element of it; each request, write and print happens
  under the one lock, in an order the source does not fix: the environment gives it as
  \<open>lock_order\<close>, a rearrangement of the list. Making the directory happens before the
  lock is taken; it adds to a set, so its place in the order does not matter.
\<close>

definition fetch_refs :: "pystr \<Rightarrow> status_json \<Rightarrow> model_ref list" where
  "fetch_refs seq_id summary =
     model_data_from seq_id 1 (case models summary of Some ms \<Rightarrow> ms | None \<Rightarrow> [])"

definition fetch_model_results :: "api \<Rightarrow> env \<Rightarrow> pystr \<Rightarrow> status_json \<Rightarrow> world \<Rightarrow> world" where
  "fetch_model_results a e seq_id summary w =
     (let model_data = fetch_refs seq_id summary
      in if model_data = [] then w\<lparr>trace := trace w @ [Print (NoModels seq_id)]\<rparr>
         else foldl (\<lambda>w' md. download_and_extract a e md w') w (lock_order e model_data))"

subsection \<open>process\_sequences\<close>

text \<open>
  The callable handed to the pool at line 203 is \<open>self.submit_request\<close>, with the
  sequence's identifier and text: this is the whole of a pooled task.
\<close>

definition pooled_task ::
  "env \<Rightarrow> pystr \<times> pystr \<Rightarrow> (pystr \<times> pystr option) option \<times> event list" where
  "pooled_task e item = submit_request (http_post e (fst item)) (fst item)"

text \<open>
  The body of the loop \<^verbatim>\<open>for future in concurrent.futures.as_completed(future_to_seq)\<close>,
  run by the thread that called \<open>process_sequences\<close>, for one finished future:
  \<^verbatim>\<open>seq_id, project_id = future.result()\<close> raises \<open>TypeError\<close> when the result is \<open>None\<close>;
  \<^verbatim>\<open>if project_id\<close> holds for a non-empty string; \<^verbatim>\<open>if status_json\<close> holds for every
  summary that \<open>monitor_job_status\<close> returns, a dictionary with the key \<open>status\<close>.
  The outer \<open>None\<close> is a body that never returns.
\<close>

definition handle_future ::
  "api \<Rightarrow> env \<Rightarrow> (pystr \<times> pystr option) option \<Rightarrow> world \<Rightarrow> (exn option \<times> world) option" where
  "handle_future a e result w =
     (case result of
        None \<Rightarrow> Some (Some TypeError, w)
      | Some (seq_id, project_id) \<Rightarrow>
          (case project_id of
             None \<Rightarrow> Some (None, w)
           | Some pid \<Rightarrow>
               if pid = [] then Some (None, w)
               else
                 (case monitor_job_status (http_poll e pid) seq_id pid of
                    None \<Rightarrow> None
                  | Some (summary, tr) \<Rightarrow>
                      let w1 = w\<lparr>trace := trace w @ [Print (ProjectStarted pid seq_id)] @ tr\<rparr>
                      in (case summary of
                            None \<Rightarrow> Some (None, w1)
                          | Some j \<Rightarrow> Some (None, fetch_model_results a e seq_id j w1)))))"

fun handle_futures ::
  "api \<Rightarrow> env \<Rightarrow> (pystr \<times> pystr option) option list \<Rightarrow> world
   \<Rightarrow> (exn option \<times> world) option" where
  "handle_futures a e [] w = Some (None, w)"
| "handle_futures a e (result # rest) w =
     (case handle_future a e result w of
        None \<Rightarrow> None
      | Some (Some x, w') \<Rightarrow> Some (Some x, w')
      | Some (None, w') \<Rightarrow> handle_futures a e rest w')"

text \<open>
  \<open>process_sequences\<close>. \<open>arrival\<close> lists the items of \<open>self.sequences\<close> in the order in
  which their futures complete, the order in which \<open>as_completed\<close> yields them.
\<close>

definition process_sequences ::
  "api \<Rightarrow> env \<Rightarrow> (pystr \<times> pystr) list \<Rightarrow> world \<Rightarrow> (exn option \<times> world) option" where
  "process_sequences a e arrival w =
     (if sequences a = [] then Some (Some ValueError, w)
      else
        let w1 = w\<lparr>trace := trace w @ [Print (Loaded (length (sequences a)))]\<rparr>;
            results = map (\<lambda>item. fst (pooled_task e item)) arrival
        in case handle_futures a e results w1 of
             None \<Rightarrow> None
           | Some (Some x, w') \<Rightarrow> Some (Some x, w')
           | Some (None, w') \<Rightarrow> Some (None, w'\<lparr>trace := trace w' @ [Print AllProcessed]\<rparr>))"

section \<open>Vocabulary of the statements\<close>

text \<open>What one rate-limited attempt of \<open>submit_request\<close> prints and sleeps.\<close>

definition backoff_events :: "nat \<Rightarrow> event list" where
  "backoff_events attempt = [Print (RateLimitHit (attempt * 10)), Sleep (attempt * 10)]"

text \<open>
  A status request after which the monitor polls again: a transport failure (an exception
  of \<open>requests\<close> or an HTTP error status), or a summary whose status is neither
  \<open>COMPLETED\<close> nor \<open>FAILED\<close>, a missing status included.
\<close>

definition non_terminal :: "status_json http \<Rightarrow> bool" where
  "non_terminal r =
     (case r of
        RequestException \<Rightarrow> True
      | Response code summary \<Rightarrow>
          raise_for_status code \<or>
          (status summary \<noteq> Some (py ''COMPLETED'') \<and> status summary \<noteq> Some (py ''FAILED'')))"

text \<open>What one tick of the monitor sleeps and prints, given the outcome of its request.\<close>

definition poll_events :: "pystr \<Rightarrow> pystr \<Rightarrow> status_json http \<Rightarrow> event list" where
  "poll_events project_id seq_id r =
     (case r of
        RequestException \<Rightarrow> [Sleep 10, Print (StatusFetchError project_id)]
      | Response code summary \<Rightarrow>
          if raise_for_status code then [Sleep 10, Print (StatusFetchError project_id)]
          else [Sleep 10, Print (JobStatus project_id seq_id
                  (case status summary of Some s \<Rightarrow> s | None \<Rightarrow> (py ''UNKNOWN'')))])"

text \<open>The output directory as \<open>os.path.join\<close> prefixes it to a relative component.\<close>

definition out_prefix :: "api \<Rightarrow> pystr" where
  "out_prefix a =
     (if out_dir a = [] \<or> endswith (out_dir a) (py ''/'') then out_dir a else out_dir a @ (py ''/''))"

text \<open>The events a pooled submission may produce.\<close>

fun submit_event :: "event \<Rightarrow> bool" where
  "submit_event (Sleep n) = True"
| "submit_event (Print (RateLimitHit n)) = True"
| "submit_event (Print (RequestError s)) = True"
| "submit_event (Print m) = False"


text \<open>
  What a destination depends on: the cluster number, the model number, and whether the
  file type is \<open>modelcif\<close>.
\<close>

fun ref_key :: "model_ref \<Rightarrow> pystr \<times> nat \<times> bool" where
  "ref_key (seq_id, url, model_number, file_type) =
     (cluster_number seq_id, model_number, file_type = (py ''modelcif''))"

section \<open>A sample run\<close>

text \<open>
  Three sequences: the first is rate-limited at every attempt, the second is refused with
  an HTTP 500 after one rate limit, the third is accepted. Its job fails the first status
  request at transport level, then answers without a status, then is \<open>COMPLETED\<close> with
  one model that has both URLs. Two more jobs serve the statements about the monitor: one
  stays \<open>RUNNING\<close> for ever, one is \<open>FAILED\<close>. Downloads return three bytes, except one
  URL that is not found; the workers of the download pool get the lock in the reverse of
  the list order.
\<close>

definition sample_model :: model where
  "sample_model =
     \<lparr>modelcif_url = Some (py ''https://swissmodel.expasy.org/m/01.cif.gz''),
      coordinates_url = Some (py ''https://swissmodel.expasy.org/m/01.pdb.gz'')\<rparr>"

definition sample_completed :: status_json where
  "sample_completed = \<lparr>status = Some (py ''COMPLETED''), models = Some [sample_model]\<rparr>"

definition sample_post :: "pystr \<Rightarrow> nat \<Rightarrow> pystr option http" where
  "sample_post seq_id n =
     (if seq_id = (py ''cluster_1_limited'') then Response 429 None
      else if seq_id = (py ''cluster_2_refused'') then
        (if n = 1 then Response 429 None else Response 500 None)
      else Response 200 (Some ((py ''P_'') @ seq_id)))"

definition sample_poll :: "pystr \<Rightarrow> nat \<Rightarrow> status_json http" where
  "sample_poll project_id n =
     (if project_id = (py ''P_cluster_3_hangs'') then
        Response 200 \<lparr>status = Some (py ''RUNNING''), models = None\<rparr>
      else if project_id = (py ''P_cluster_9_failed'') then
        Response 200 \<lparr>status = Some (py ''FAILED''), models = None\<rparr>
      else if n = 0 then RequestException
      else if n = 1 then Response 200 \<lparr>status = None, models = None\<rparr>
      else Response 200 sample_completed)"

definition sample_get :: "pystr \<Rightarrow> bytes http" where
  "sample_get url = (if url = (py ''https://swissmodel.expasy.org/m/gone'') then Response 404 []
                     else Response 200 [31, 139, 8])"

definition sample_env :: env where
  "sample_env = \<lparr>http_post = sample_post, http_poll = sample_poll, http_get = sample_get,
                  gunzip = drop 3, lock_order = rev\<rparr>"

definition sample_api :: api where
  "sample_api = \<lparr>out_dir = (py ''out''),
                  sequences = [((py ''cluster_1_limited''), (py ''MKV'')), ((py ''cluster_2_refused''), (py ''MKL'')),
                               ((py ''cluster_3_medoid''), (py ''MGS''))]\<rparr>"

text \<open>A second batch, whose first job never reaches a terminal state.\<close>

definition hanging_api :: api where
  "hanging_api = \<lparr>out_dir = (py ''out''),
                   sequences = [((py ''cluster_3_hangs''), (py ''MAA'')), ((py ''cluster_3_medoid''), (py ''MGS''))]\<rparr>"

text \<open>A third batch, of the one sequence whose job completes.\<close>

definition single_api :: api where
  "single_api = \<lparr>out_dir = (py ''out''), sequences = [((py ''cluster_3_medoid''), (py ''MGS''))]\<rparr>"

text \<open>
  A sequence identifier whose cluster number is written with U+0663, the Arabic-Indic
  digit three.
\<close>

definition arabic_id :: pystr where
  "arabic_id = py ''cluster_'' @ [1635] @ py ''_medoid''"

text \<open>A submission that is answered with a redirect status and a project identifier.\<close>

definition post_302 :: "nat \<Rightarrow> pystr option http" where
  "post_302 n = Response 302 (Some (py ''P_7''))"

definition empty_world :: world where
  "empty_world = \<lparr>files = Map.empty, dirs = {}, trace = []\<rparr>"

section \<open>Properties\<close>

subsection \<open>Literals\<close>

lemma py_Nil [simp]: "py [] = []"
  by (simp add: py_def)

lemma py_append: "py (a @ b) = py a @ py b"
  by (simp add: py_def)

lemma length_py [simp]: "length (py s) = length s"
  by (simp add: py_def)

lemma cp_eq_iff [simp]: "cp a = cp b \<longleftrightarrow> a = b"
  by (simp add: cp_def)

lemma py_eq_iff [simp]: "py a = py b \<longleftrightarrow> a = b"
  unfolding py_def by (rule inj_map_eq_map) (simp add: inj_def cp_eq_iff)

lemma py_eq_Nil [simp]: "py s = [] \<longleftrightarrow> s = []"
  by (simp add: py_def)

lemma py_fold:
  "py a @ py b = py (a @ b)" "py a @ py b @ xs = py (a @ b) @ xs"
  by (simp_all add: py_def)

lemma ascii_digit_is_digit: "is_ascii_digit c \<Longrightarrow> is_digit c"
  by (simp add: is_ascii_digit_def is_digit_def nd_ranges_def cp_def)

lemma underscore_not_digit: "\<not> is_digit (cp (CHR ''_''))"
  by (simp add: is_digit_def nd_ranges_def cp_def)

lemma ascii_digit_allowed: "is_ascii_digit c \<Longrightarrow> allowed_char c"
  by (simp add: allowed_char_def)

subsection \<open>Sanitised names\<close>

lemma allowed_underscore: "allowed_char (cp (CHR ''_''))"
  by (simp add: allowed_char_def)

lemma sanitize_filename_allowed: "list_all allowed_char (sanitize_filename s)"
  by (induction s) (simp_all add: sanitize_filename_def allowed_underscore)

lemma sanitize_filename_id: "list_all allowed_char s \<Longrightarrow> sanitize_filename s = s"
  by (induction s) (simp_all add: sanitize_filename_def)

text \<open>
  Claim C9. For every candidate filename, sanitising is idempotent, and every character of
  the sanitised name is a letter \<open>A-Z\<close> or \<open>a-z\<close>, a digit \<open>0-9\<close>, an underscore, a dot or a
  hyphen.
\<close>

theorem sanitize_filename_idempotent_allowed:
  "sanitize_filename (sanitize_filename s) = sanitize_filename s \<and>
   set (sanitize_filename s) \<subseteq>
     {c. (cp (CHR ''A'') \<le> c \<and> c \<le> cp (CHR ''Z'')) \<or> (cp (CHR ''a'') \<le> c \<and> c \<le> cp (CHR ''z'')) \<or>
         (cp (CHR ''0'') \<le> c \<and> c \<le> cp (CHR ''9'')) \<or> c = cp (CHR ''_'') \<or> c = cp (CHR ''.'') \<or> c = cp (CHR ''-'')}"
proof
  show "sanitize_filename (sanitize_filename s) = sanitize_filename s"
    by (rule sanitize_filename_id) (rule sanitize_filename_allowed)
next
  have "list_all allowed_char (sanitize_filename s)"
    by (rule sanitize_filename_allowed)
  then show "set (sanitize_filename s) \<subseteq>
     {c. (cp (CHR ''A'') \<le> c \<and> c \<le> cp (CHR ''Z'')) \<or> (cp (CHR ''a'') \<le> c \<and> c \<le> cp (CHR ''z'')) \<or>
         (cp (CHR ''0'') \<le> c \<and> c \<le> cp (CHR ''9'')) \<or> c = cp (CHR ''_'') \<or> c = cp (CHR ''.'') \<or> c = cp (CHR ''-'')}"
    by (auto simp: list_all_iff allowed_char_def is_upper_def is_lower_def is_ascii_digit_def)
qed

subsection \<open>Cluster number\<close>

lemma match_here_iff:
  "(startswith s lit \<and> takeWhile is_digit (drop (length lit) s) \<noteq> []) \<longleftrightarrow>
   (\<exists>d r. s = lit @ d # r \<and> is_digit d)"
proof
  assume h: "startswith s lit \<and> takeWhile is_digit (drop (length lit) s) \<noteq> []"
  then have s: "s = lit @ drop (length lit) s"
    by (metis append_take_drop_id startswith_def)
  from h obtain d r where dr: "drop (length lit) s = d # r"
    by (cases "drop (length lit) s") auto
  with h have "is_digit d" by (auto split: if_splits)
  with s dr show "\<exists>d r. s = lit @ d # r \<and> is_digit d" by metis
next
  assume "\<exists>d r. s = lit @ d # r \<and> is_digit d"
  then show "startswith s lit \<and> takeWhile is_digit (drop (length lit) s) \<noteq> []"
    by (auto simp: startswith_def)
qed

lemma re_search_digits_none:
  "\<not> (\<exists>p d r. s = p @ lit @ d # r \<and> is_digit d) \<Longrightarrow> re_search_digits lit s = None"
proof (induction s)
  case Nil
  show ?case by simp
next
  case (Cons c cs)
  have here: "\<not> (\<exists>d r. c # cs = lit @ d # r \<and> is_digit d)"
    using Cons.prems by (metis append_Nil)
  have later: "\<not> (\<exists>p d r. cs = p @ lit @ d # r \<and> is_digit d)"
    using Cons.prems by (metis append_Cons)
  from here have "\<not> (startswith (c # cs) lit \<and> takeWhile is_digit (drop (length lit) (c # cs)) \<noteq> [])"
    by (simp only: match_here_iff not_False_eq_True)
  then have "re_search_digits lit (c # cs) = re_search_digits lit cs"
    by auto
  with Cons.IH [OF later] show ?case by simp
qed

lemma takeWhile_run:
  "list_all is_digit ds \<Longrightarrow> rest = [] \<or> \<not> is_digit (hd rest) \<Longrightarrow>
   takeWhile is_digit (ds @ rest) = ds"
  by (cases rest) (auto simp: list_all_iff takeWhile_append2)

lemma re_search_digits_first:
  "s = pre @ lit @ ds @ rest \<Longrightarrow> ds \<noteq> [] \<Longrightarrow> list_all is_digit ds \<Longrightarrow>
   rest = [] \<or> \<not> is_digit (hd rest) \<Longrightarrow>
   \<forall>p d r. s = p @ lit @ d # r \<and> is_digit d \<longrightarrow> length pre \<le> length p \<Longrightarrow>
   re_search_digits lit s = Some ds"
proof (induction pre arbitrary: s)
  case Nil
  obtain d ds' where ds: "ds = d # ds'" using Nil.prems(2) by (cases ds) auto
  have run: "takeWhile is_digit (drop (length lit) s) = ds"
    using Nil.prems(1,3,4) by (simp add: takeWhile_run)
  have sw: "startswith s lit" using Nil.prems(1) by (simp add: startswith_def)
  have "s \<noteq> []" using Nil.prems(1) ds by simp
  then obtain c cs where s: "s = c # cs" by (cases s) auto
  show ?case unfolding s using run sw Nil.prems(2) unfolding s by simp
next
  case (Cons a pre')
  obtain cs where s: "s = a # cs" and cs: "cs = pre' @ lit @ ds @ rest"
    using Cons.prems(1) by simp
  have "\<not> (\<exists>d r. s = lit @ d # r \<and> is_digit d)"
  proof
    assume "\<exists>d r. s = lit @ d # r \<and> is_digit d"
    then obtain d r where "s = [] @ lit @ d # r \<and> is_digit d" by auto
    with Cons.prems(5) have "length (a # pre') \<le> length ([]::pystr)" by blast
    then show False by simp
  qed
  then have nohere: "\<not> (startswith (a # cs) lit \<and> takeWhile is_digit (drop (length lit) (a # cs)) \<noteq> [])"
    unfolding s by (simp only: match_here_iff not_False_eq_True)
  have left: "\<forall>p d r. cs = p @ lit @ d # r \<and> is_digit d \<longrightarrow> length pre' \<le> length p"
  proof (intro allI impI)
    fix p d r assume "cs = p @ lit @ d # r \<and> is_digit d"
    then have "s = (a # p) @ lit @ d # r \<and> is_digit d" using s by simp
    with Cons.prems(5) have "length (a # pre') \<le> length (a # p)" by blast
    then show "length pre' \<le> length p" by simp
  qed
  have "re_search_digits lit cs = Some ds"
    by (rule Cons.IH [OF cs Cons.prems(2,3,4) left])
  with nohere show ?case unfolding s by auto
qed

text \<open>
  Claim C5. When the identifier contains \<open>cluster_\<close> followed by a digit, the cluster
  number is the digit run \<open>ds\<close> after the first such place: \<open>ds\<close> is not empty, is made
  of digits, is followed by no further digit, and no place further left has \<open>cluster_\<close>
  followed by a digit. When the identifier contains no such place, the cluster number is
  the sentinel \<open>unknown\<close>.
\<close>

theorem cluster_number_spec:
  "(seq_id = pre @ (py ''cluster_'') @ ds @ rest \<and> ds \<noteq> [] \<and> list_all is_digit ds \<and>
    (rest = [] \<or> \<not> is_digit (hd rest)) \<and>
    (\<forall>p d r. seq_id = p @ (py ''cluster_'') @ d # r \<and> is_digit d \<longrightarrow> length pre \<le> length p)
    \<longrightarrow> cluster_number seq_id = ds) \<and>
   (\<not> (\<exists>p d r. seq_id = p @ (py ''cluster_'') @ d # r \<and> is_digit d)
    \<longrightarrow> cluster_number seq_id = (py ''unknown''))"
proof (intro conjI impI)
  assume h: "seq_id = pre @ (py ''cluster_'') @ ds @ rest \<and> ds \<noteq> [] \<and> list_all is_digit ds \<and>
    (rest = [] \<or> \<not> is_digit (hd rest)) \<and>
    (\<forall>p d r. seq_id = p @ (py ''cluster_'') @ d # r \<and> is_digit d \<longrightarrow> length pre \<le> length p)"
  have "re_search_digits (py ''cluster_'') seq_id = Some ds"
    by (rule re_search_digits_first [of seq_id pre "(py ''cluster_'')" ds rest]) (use h in blast)+
  then show "cluster_number seq_id = ds" by (simp add: cluster_number_def)
next
  assume "\<not> (\<exists>p d r. seq_id = p @ (py ''cluster_'') @ d # r \<and> is_digit d)"
  then have "re_search_digits (py ''cluster_'') seq_id = None"
    by (rule re_search_digits_none)
  then show "cluster_number seq_id = (py ''unknown'')" by (simp add: cluster_number_def)
qed

theorem cluster_number_spec_witness:
  "cluster_number (py ''cluster_3_medoid'') = (py ''3'') \<and> cluster_number (py ''medoid'') = (py ''unknown'')"
proof
  have "(py ''cluster_3_medoid'') = [] @ (py ''cluster_'') @ (py ''3'') @ (py ''_medoid'') \<and> (py ''3'') \<noteq> [] \<and>
      list_all is_digit (py ''3'') \<and> ((py ''_medoid'') = [] \<or> \<not> is_digit (hd (py ''_medoid''))) \<and>
      (\<forall>p d r. (py ''cluster_3_medoid'') = p @ (py ''cluster_'') @ d # r \<and> is_digit d
         \<longrightarrow> length ([]::pystr) \<le> length p)"
    by (simp add: is_digit_def nd_ranges_def py_def cp_def)
  with cluster_number_spec [of "(py ''cluster_3_medoid'')" "[]" "(py ''3'')" "(py ''_medoid'')"]
  show "cluster_number (py ''cluster_3_medoid'') = (py ''3'')" by blast
next
  have "\<not> (\<exists>p d r. (py ''medoid'') = p @ (py ''cluster_'') @ d # r \<and> is_digit d)"
  proof
    assume "\<exists>p d r. (py ''medoid'') = p @ (py ''cluster_'') @ d # r \<and> is_digit d"
    then obtain p d r where "(py ''medoid'') = p @ (py ''cluster_'') @ d # r" by blast
    then have "length (py ''medoid'') = length (p @ (py ''cluster_'') @ d # r)" by simp
    then show False by simp
  qed
  with cluster_number_spec [of "(py ''medoid'')"]
  show "cluster_number (py ''medoid'') = (py ''unknown'')" by blast
qed

subsection \<open>Submission and monitoring\<close>

lemma submit_loop_done: "5 < attempt \<Longrightarrow> submit_loop post seq_id attempt tr = (None, tr)"
  by (subst submit_loop.simps) simp

lemma submit_loop_429:
  "attempt \<le> 5 \<Longrightarrow> post attempt = Response 429 b \<Longrightarrow>
   submit_loop post seq_id attempt tr =
   submit_loop post seq_id (Suc attempt) (tr @ backoff_events attempt)"
  by (subst submit_loop.simps) (simp add: backoff_events_def)

lemma submit_loop_fail:
  "attempt \<le> 5 \<Longrightarrow>
   post attempt = RequestException \<or>
   (\<exists>code b. post attempt = Response code b \<and> code \<noteq> 429 \<and> raise_for_status code) \<Longrightarrow>
   submit_loop post seq_id attempt tr = (Some (seq_id, None), tr @ [Print (RequestError seq_id)])"
  by (subst submit_loop.simps) auto

lemma submit_loop_ok:
  "attempt \<le> 5 \<Longrightarrow> post attempt = Response code b \<Longrightarrow> code \<noteq> 429 \<Longrightarrow>
   \<not> raise_for_status code \<Longrightarrow>
   submit_loop post seq_id attempt tr = (Some (seq_id, b), tr)"
  by (subst submit_loop.simps) auto

lemma submit_loop_429_run:
  "\<forall>n. attempt \<le> n \<and> n < attempt + k \<longrightarrow> (\<exists>b. post n = Response 429 b) \<Longrightarrow>
   attempt + k \<le> 6 \<Longrightarrow>
   submit_loop post seq_id attempt tr =
   submit_loop post seq_id (attempt + k) (tr @ concat (map backoff_events [attempt..<attempt + k]))"
proof (induction k arbitrary: attempt tr)
  case 0
  show ?case by simp
next
  case (Suc k)
  from Suc.prems(1) obtain b where b: "post attempt = Response 429 b" by force
  have le: "attempt \<le> 5" using Suc.prems(2) by simp
  have rest: "\<forall>n. Suc attempt \<le> n \<and> n < Suc attempt + k \<longrightarrow> (\<exists>b. post n = Response 429 b)"
    using Suc.prems(1) by simp
  have "submit_loop post seq_id attempt tr =
        submit_loop post seq_id (Suc attempt) (tr @ backoff_events attempt)"
    using le b by (rule submit_loop_429)
  also have "\<dots> = submit_loop post seq_id (Suc attempt + k)
        ((tr @ backoff_events attempt) @ concat (map backoff_events [Suc attempt..<Suc attempt + k]))"
    by (rule Suc.IH [OF rest]) (use Suc.prems(2) in simp)
  also have "(tr @ backoff_events attempt) @ concat (map backoff_events [Suc attempt..<Suc attempt + k])
      = tr @ concat (map backoff_events [attempt..<attempt + Suc k])"
  proof -
    have "[attempt..<attempt + Suc k] = attempt # [Suc attempt..<Suc attempt + k]"
      by (subst upt_rec) simp
    then show ?thesis by simp
  qed
  finally show ?case by simp
qed

lemma upt_1_6: "[Suc 0..<6] = [1, 2, 3, 4, 5]"
  by (simp add: upt_rec)

lemma submit_request_all_429:
  assumes "\<forall>n. 1 \<le> n \<and> n \<le> 5 \<longrightarrow> (\<exists>b. post n = Response 429 b)"
  shows "submit_request post seq_id =
     (None, [Print (RateLimitHit 10), Sleep 10, Print (RateLimitHit 20), Sleep 20,
             Print (RateLimitHit 30), Sleep 30, Print (RateLimitHit 40), Sleep 40,
             Print (RateLimitHit 50), Sleep 50])"
proof -
  have "\<forall>n. 1 \<le> n \<and> n < 1 + 5 \<longrightarrow> (\<exists>b. post n = Response 429 b)"
    using assms by simp
  then have "submit_loop post seq_id 1 [] =
     submit_loop post seq_id (1 + 5) ([] @ concat (map backoff_events [1..<1 + 5]))"
    by (rule submit_loop_429_run) simp
  then show ?thesis
    by (simp add: submit_request_def submit_loop_done upt_1_6 backoff_events_def)
qed

lemma monitor_loop_again:
  "non_terminal (poll n) \<Longrightarrow>
   monitor_loop poll seq_id pid n tr =
   monitor_loop poll seq_id pid (Suc n) (tr @ poll_events pid seq_id (poll n))"
  by (subst monitor_loop.simps)
     (auto simp: non_terminal_def poll_events_def Let_def split: http.splits option.splits)

lemma monitor_loop_completed:
  "poll n = Response code j \<Longrightarrow> \<not> raise_for_status code \<Longrightarrow> status j = Some (py ''COMPLETED'') \<Longrightarrow>
   monitor_loop poll seq_id pid n tr = Some (Some j, tr @ poll_events pid seq_id (poll n))"
  by (subst monitor_loop.simps) (simp add: poll_events_def)

lemma monitor_loop_failed:
  "poll n = Response code j \<Longrightarrow> \<not> raise_for_status code \<Longrightarrow> status j = Some (py ''FAILED'') \<Longrightarrow>
   monitor_loop poll seq_id pid n tr = Some (None, tr @ poll_events pid seq_id (poll n))"
  by (subst monitor_loop.simps) (simp add: poll_events_def)

lemma monitor_loop_skip:
  "\<forall>i. n \<le> i \<and> i < n + k \<longrightarrow> non_terminal (poll i) \<Longrightarrow>
   monitor_loop poll seq_id pid n tr =
   monitor_loop poll seq_id pid (n + k)
     (tr @ concat (map (\<lambda>i. poll_events pid seq_id (poll i)) [n..<n + k]))"
proof (induction k arbitrary: n tr)
  case 0
  show ?case by simp
next
  case (Suc k)
  have nt: "non_terminal (poll n)" using Suc.prems by simp
  have rest: "\<forall>i. Suc n \<le> i \<and> i < Suc n + k \<longrightarrow> non_terminal (poll i)"
    using Suc.prems by simp
  have up: "[n..<n + Suc k] = n # [Suc n..<Suc n + k]"
    by (subst upt_rec) simp
  have "monitor_loop poll seq_id pid n tr =
        monitor_loop poll seq_id pid (Suc n) (tr @ poll_events pid seq_id (poll n))"
    using nt by (rule monitor_loop_again)
  also have "\<dots> = monitor_loop poll seq_id pid (Suc n + k)
        ((tr @ poll_events pid seq_id (poll n)) @
         concat (map (\<lambda>i. poll_events pid seq_id (poll i)) [Suc n..<Suc n + k]))"
    using rest by (rule Suc.IH)
  finally have "monitor_loop poll seq_id pid n tr =
        monitor_loop poll seq_id pid (Suc n + k)
        ((tr @ poll_events pid seq_id (poll n)) @
         concat (map (\<lambda>i. poll_events pid seq_id (poll i)) [Suc n..<Suc n + k]))" .
  moreover have "Suc n + k = n + Suc k" by simp
  moreover have "(tr @ poll_events pid seq_id (poll n)) @
         concat (map (\<lambda>i. poll_events pid seq_id (poll i)) [Suc n..<Suc n + k]) =
         tr @ concat (map (\<lambda>i. poll_events pid seq_id (poll i)) [n..<n + Suc k])"
    unfolding up by simp
  ultimately show ?case by (simp only:)
qed

lemma monitor_body_cases:
  assumes run: "(case poll n of
        RequestException \<Rightarrow>
          f poll seq_id pid (Suc n) (tr @ [Sleep 10, Print (StatusFetchError pid)])
      | Response code summary \<Rightarrow>
          if raise_for_status code then
            f poll seq_id pid (Suc n) (tr @ [Sleep 10, Print (StatusFetchError pid)])
          else
            let st = (case status summary of Some s \<Rightarrow> s | None \<Rightarrow> (py ''UNKNOWN'')) in
            if st \<in> set [(py ''COMPLETED''), (py ''FAILED'')] then
              Some (if st = (py ''COMPLETED'') then Some summary else None,
                    tr @ [Sleep 10, Print (JobStatus pid seq_id st)])
            else
              f poll seq_id pid (Suc n) (tr @ [Sleep 10, Print (JobStatus pid seq_id st)])) = Some y"
  shows "(non_terminal (poll n) \<and> (\<exists>tr'. f poll seq_id pid (Suc n) tr' = Some y)) \<or>
         (\<exists>code j. poll n = Response code j \<and> \<not> raise_for_status code \<and>
            ((status j = Some (py ''COMPLETED'') \<and> fst y = Some j) \<or>
             (status j = Some (py ''FAILED'') \<and> fst y = None)))"
proof (cases "poll n")
  case RequestException
  with run show ?thesis by (auto simp: non_terminal_def)
next
  case (Response code summary)
  show ?thesis
  proof (cases "raise_for_status code")
    case True
    with run Response show ?thesis by (auto simp: non_terminal_def)
  next
    case False
    obtain st where st_def: "(case status summary of Some s \<Rightarrow> s | None \<Rightarrow> (py ''UNKNOWN'')) = st"
      by blast
    have run': "(if st \<in> set [(py ''COMPLETED''), (py ''FAILED'')] then
              Some (if st = (py ''COMPLETED'') then Some summary else None,
                    tr @ [Sleep 10, Print (JobStatus pid seq_id st)])
            else
              f poll seq_id pid (Suc n) (tr @ [Sleep 10, Print (JobStatus pid seq_id st)])) = Some y"
      using run Response False by (simp only: http.case if_False Let_def st_def)
    consider (c) "st = (py ''COMPLETED'')" | (f) "st = (py ''FAILED'')"
      | (o) "st \<noteq> (py ''COMPLETED'')" "st \<noteq> (py ''FAILED'')" by blast
    then show ?thesis
    proof cases
      case c
      then have "status summary = Some (py ''COMPLETED'')"
        using st_def by (auto split: option.splits)
      moreover from run' c have "fst y = Some summary" by auto
      ultimately show ?thesis using Response False by blast
    next
      case f
      then have "status summary = Some (py ''FAILED'')"
        using st_def by (auto split: option.splits)
      moreover from run' f have "fst y = None" by auto
      ultimately show ?thesis using Response False by blast
    next
      case o
      then have "status summary \<noteq> Some (py ''COMPLETED'')" "status summary \<noteq> Some (py ''FAILED'')"
        using st_def by auto
      then have "non_terminal (poll n)" using Response by (simp add: non_terminal_def)
      moreover from run' o
      have "f poll seq_id pid (Suc n) (tr @ [Sleep 10, Print (JobStatus pid seq_id st)]) = Some y"
        by simp
      ultimately show ?thesis by blast
    qed
  qed
qed

lemma monitor_loop_Some_terminal:
  "monitor_loop poll seq_id pid n tr = Some y \<Longrightarrow> \<exists>k. n \<le> k \<and> \<not> non_terminal (poll k)"
  apply (erule monitor_loop.raw_induct [rotated,
        where P = "\<lambda>poll seq_id pid n tr y. \<exists>k. n \<le> k \<and> \<not> non_terminal (poll k)"])
  subgoal for f poll seq_id pid n tr y
    apply (drule monitor_body_cases [where f = f and seq_id = seq_id and pid = pid and tr = tr and y = y])
    apply (erule disjE)
     apply (metis Suc_leD)
    apply (auto simp: non_terminal_def)
    done
  done

lemma monitor_loop_never: "\<forall>i. non_terminal (poll i) \<Longrightarrow> monitor_loop poll seq_id pid n tr = None"
  using monitor_loop_Some_terminal [of poll seq_id pid n tr]
  by (cases "monitor_loop poll seq_id pid n tr") auto

lemma monitor_loop_Some_completed:
  "monitor_loop poll seq_id pid n tr = Some y \<Longrightarrow>
   \<forall>j. fst y = Some j \<longrightarrow>
     status j = Some (py ''COMPLETED'') \<and> (\<exists>k code. poll k = Response code j \<and> \<not> raise_for_status code)"
  apply (erule monitor_loop.raw_induct [rotated,
        where P = "\<lambda>poll seq_id pid n tr y. \<forall>j. fst y = Some j \<longrightarrow>
     status j = Some (py ''COMPLETED'') \<and> (\<exists>k code. poll k = Response code j \<and> \<not> raise_for_status code)"])
  subgoal premises prems for f poll seq_id pid n tr y
  proof -
    from monitor_body_cases [where f = f, OF prems(2)]
    consider (again) tr' where "f poll seq_id pid (Suc n) tr' = Some y"
      | (completed) code j where "poll n = Response code j" "\<not> raise_for_status code"
          "status j = Some (py ''COMPLETED'')" "fst y = Some j"
      | (failed) "fst y = None"
      by (elim disjE exE conjE) auto
    then show ?thesis
    proof cases
      case again
      from prems(1) [OF this] show ?thesis .
    next
      case completed
      then show ?thesis by auto
    next
      case failed
      then show ?thesis by simp
    qed
  qed
  done

text \<open>
  Claim C8, as amended. When an attempt of \<open>submit_request\<close> (after \<open>k\<close> rate-limited
  ones, \<open>k\<close> below 5, possibly none) ends in a transport-level error, an exception of
  \<open>requests\<close> or an HTTP status from 400 to 599 other than 429, the function makes no
  further attempt: it prints the request error and returns the sequence identifier with
  no project identifier, whatever later attempts would have received; the orchestrator's
  loop body then leaves the output tree as it was and goes on.
\<close>

theorem submit_request_no_retry:
  assumes "k < 5"
    and "\<forall>n. 1 \<le> n \<and> n \<le> k \<longrightarrow> (\<exists>b. post n = Response 429 b)"
    and "post (Suc k) = RequestException \<or>
         (\<exists>code b. post (Suc k) = Response code b \<and> code \<noteq> 429 \<and> raise_for_status code)"
  shows "submit_request post seq_id =
           (Some (seq_id, None),
            concat (map backoff_events [1..<Suc k]) @ [Print (RequestError seq_id)]) \<and>
         handle_future a e (fst (submit_request post seq_id)) w = Some (None, w)"
proof -
  have "\<forall>n. 1 \<le> n \<and> n < 1 + k \<longrightarrow> (\<exists>b. post n = Response 429 b)"
    using assms(2) by simp
  then have "submit_loop post seq_id 1 [] =
     submit_loop post seq_id (1 + k) ([] @ concat (map backoff_events [1..<1 + k]))"
    by (rule submit_loop_429_run) (use assms(1) in simp)
  moreover have "submit_loop post seq_id (Suc k) (concat (map backoff_events [1..<Suc k])) =
     (Some (seq_id, None), concat (map backoff_events [1..<Suc k]) @ [Print (RequestError seq_id)])"
    by (rule submit_loop_fail) (use assms in auto)
  ultimately have r: "submit_request post seq_id =
           (Some (seq_id, None),
            concat (map backoff_events [1..<Suc k]) @ [Print (RequestError seq_id)])"
    by (simp add: submit_request_def)
  have "handle_future a e (fst (submit_request post seq_id)) w = Some (None, w)"
    by (simp add: r handle_future_def)
  with r show ?thesis by simp
qed

theorem submit_request_no_retry_witness:
  "submit_request (sample_post (py ''cluster_2_refused'')) (py ''cluster_2_refused'') =
     (Some ((py ''cluster_2_refused''), None),
      [Print (RateLimitHit 10), Sleep 10, Print (RequestError (py ''cluster_2_refused''))]) \<and>
   handle_future sample_api sample_env
     (fst (submit_request (sample_post (py ''cluster_2_refused'')) (py ''cluster_2_refused''))) empty_world
     = Some (None, empty_world)"
proof -
  have 1: "(1::nat) < 5" by simp
  have 2: "\<forall>n. 1 \<le> n \<and> n \<le> 1 \<longrightarrow> (\<exists>b. sample_post (py ''cluster_2_refused'') n = Response 429 b)"
    by (auto simp: sample_post_def)
  have 3: "sample_post (py ''cluster_2_refused'') (Suc 1) = RequestException \<or>
         (\<exists>code b. sample_post (py ''cluster_2_refused'') (Suc 1) = Response code b \<and> code \<noteq> 429 \<and>
            raise_for_status code)"
    by (simp add: sample_post_def raise_for_status_def)
  show ?thesis
    using submit_request_no_retry [OF 1 2 3, of "(py ''cluster_2_refused'')" sample_api sample_env empty_world]
    by (simp add: backoff_events_def upt_rec handle_future_def)
qed

text \<open>
  Claim C8 as stated fails at a status that is neither 2xx nor an error status of
  \<open>raise_for_status\<close>: a final response 302 that carries a project identifier is taken as
  accepted, nothing is printed, and the orchestrator goes on to monitor the project.
\<close>

theorem submit_request_accepts_302:
  "\<not> (200 \<le> (302::nat) \<and> (302::nat) < 300) \<and>
   submit_request post_302 (py ''cluster_7_moved'') =
     (Some (py ''cluster_7_moved'', Some (py ''P_7'')), [])"
proof -
  have "submit_loop post_302 (py ''cluster_7_moved'') 1 [] =
      (Some (py ''cluster_7_moved'', Some (py ''P_7'')), [])"
    by (rule submit_loop_ok [where code = 302])
       (simp_all add: post_302_def raise_for_status_def)
  then show ?thesis by (simp add: submit_request_def)
qed

text \<open>
  Claim C6. Let the status requests before the \<open>k\<close>-th all be non-terminal (transport
  failures, or summaries whose status is missing or unrecognised) and let the \<open>k\<close>-th
  answer with a summary: if its status is \<open>COMPLETED\<close> the monitor returns that summary, if
  it is \<open>FAILED\<close> the monitor returns no result; in both cases it has slept and logged once
  per request, the failed ones included. The monitor returns a summary only if that
  summary was observed with status \<open>COMPLETED\<close>. After a transport failure, and after a
  summary without status (logged as \<open>UNKNOWN\<close>), it logs and goes on with the next
  request; when every request is non-terminal it never returns.
\<close>

theorem monitor_job_status_spec:
  "((\<forall>i<k. non_terminal (poll i)) \<and> poll k = Response code j \<and> \<not> raise_for_status code \<and>
      status j = Some (py ''COMPLETED'') \<longrightarrow>
      monitor_job_status poll seq_id pid =
        Some (Some j, concat (map (\<lambda>i. poll_events pid seq_id (poll i)) [0..<Suc k]))) \<and>
   ((\<forall>i<k. non_terminal (poll i)) \<and> poll k = Response code j \<and> \<not> raise_for_status code \<and>
      status j = Some (py ''FAILED'') \<longrightarrow>
      monitor_job_status poll seq_id pid =
        Some (None, concat (map (\<lambda>i. poll_events pid seq_id (poll i)) [0..<Suc k]))) \<and>
   (monitor_job_status poll seq_id pid = Some (Some j', tr') \<longrightarrow>
      status j' = Some (py ''COMPLETED'') \<and>
      (\<exists>n c. poll n = Response c j' \<and> \<not> raise_for_status c)) \<and>
   (poll n = RequestException \<or> (\<exists>c s. poll n = Response c s \<and> raise_for_status c) \<longrightarrow>
      monitor_loop poll seq_id pid n tr =
      monitor_loop poll seq_id pid (Suc n) (tr @ [Sleep 10, Print (StatusFetchError pid)])) \<and>
   ((\<exists>c s. poll n = Response c s \<and> \<not> raise_for_status c \<and> status s = None) \<longrightarrow>
      monitor_loop poll seq_id pid n tr =
      monitor_loop poll seq_id pid (Suc n)
        (tr @ [Sleep 10, Print (JobStatus pid seq_id (py ''UNKNOWN''))])) \<and>
   ((\<forall>i. non_terminal (poll i)) \<longrightarrow> monitor_job_status poll seq_id pid = None)"
proof (intro conjI impI)
  assume h: "(\<forall>i<k. non_terminal (poll i)) \<and> poll k = Response code j \<and>
    \<not> raise_for_status code \<and> status j = Some (py ''COMPLETED'')"
  then have "\<forall>i. 0 \<le> i \<and> i < 0 + k \<longrightarrow> non_terminal (poll i)" by simp
  then have "monitor_loop poll seq_id pid 0 [] =
     monitor_loop poll seq_id pid (0 + k)
       ([] @ concat (map (\<lambda>i. poll_events pid seq_id (poll i)) [0..<0 + k]))"
    by (rule monitor_loop_skip)
  also have "\<dots> = Some (Some j, ([] @ concat (map (\<lambda>i. poll_events pid seq_id (poll i)) [0..<0 + k]))
      @ poll_events pid seq_id (poll (0 + k)))"
    by (rule monitor_loop_completed [of poll _ code j]) (use h in simp_all)
  finally show "monitor_job_status poll seq_id pid =
        Some (Some j, concat (map (\<lambda>i. poll_events pid seq_id (poll i)) [0..<Suc k]))"
    by (simp add: monitor_job_status_def)
next
  assume h: "(\<forall>i<k. non_terminal (poll i)) \<and> poll k = Response code j \<and>
    \<not> raise_for_status code \<and> status j = Some (py ''FAILED'')"
  then have "\<forall>i. 0 \<le> i \<and> i < 0 + k \<longrightarrow> non_terminal (poll i)" by simp
  then have "monitor_loop poll seq_id pid 0 [] =
     monitor_loop poll seq_id pid (0 + k)
       ([] @ concat (map (\<lambda>i. poll_events pid seq_id (poll i)) [0..<0 + k]))"
    by (rule monitor_loop_skip)
  also have "\<dots> = Some (None, ([] @ concat (map (\<lambda>i. poll_events pid seq_id (poll i)) [0..<0 + k]))
      @ poll_events pid seq_id (poll (0 + k)))"
    by (rule monitor_loop_failed [of poll _ code j]) (use h in simp_all)
  finally show "monitor_job_status poll seq_id pid =
        Some (None, concat (map (\<lambda>i. poll_events pid seq_id (poll i)) [0..<Suc k]))"
    by (simp add: monitor_job_status_def)
next
  assume "monitor_job_status poll seq_id pid = Some (Some j', tr')"
  then have "monitor_loop poll seq_id pid 0 [] = Some (Some j', tr')"
    by (simp add: monitor_job_status_def)
  from monitor_loop_Some_completed [OF this]
  show "status j' = Some (py ''COMPLETED'')" and "\<exists>n c. poll n = Response c j' \<and> \<not> raise_for_status c"
    by simp_all
next
  assume h: "poll n = RequestException \<or> (\<exists>c s. poll n = Response c s \<and> raise_for_status c)"
  then have "non_terminal (poll n)" by (auto simp: non_terminal_def)
  then have "monitor_loop poll seq_id pid n tr =
      monitor_loop poll seq_id pid (Suc n) (tr @ poll_events pid seq_id (poll n))"
    by (rule monitor_loop_again)
  moreover from h have "poll_events pid seq_id (poll n) = [Sleep 10, Print (StatusFetchError pid)]"
    by (auto simp: poll_events_def)
  ultimately show "monitor_loop poll seq_id pid n tr =
      monitor_loop poll seq_id pid (Suc n) (tr @ [Sleep 10, Print (StatusFetchError pid)])"
    by simp
next
  assume h: "\<exists>c s. poll n = Response c s \<and> \<not> raise_for_status c \<and> status s = None"
  then have "non_terminal (poll n)" by (auto simp: non_terminal_def)
  then have "monitor_loop poll seq_id pid n tr =
      monitor_loop poll seq_id pid (Suc n) (tr @ poll_events pid seq_id (poll n))"
    by (rule monitor_loop_again)
  moreover from h have "poll_events pid seq_id (poll n) =
      [Sleep 10, Print (JobStatus pid seq_id (py ''UNKNOWN''))]"
    by (auto simp: poll_events_def)
  ultimately show "monitor_loop poll seq_id pid n tr =
      monitor_loop poll seq_id pid (Suc n)
        (tr @ [Sleep 10, Print (JobStatus pid seq_id (py ''UNKNOWN''))])"
    by simp
next
  assume "\<forall>i. non_terminal (poll i)"
  then show "monitor_job_status poll seq_id pid = None"
    by (simp add: monitor_job_status_def monitor_loop_never)
qed

theorem monitor_job_status_spec_witness:
  "monitor_job_status (sample_poll (py ''P_cluster_3_medoid'')) (py ''cluster_3_medoid'') (py ''P_cluster_3_medoid'')
     = Some (Some sample_completed,
         [Sleep 10, Print (StatusFetchError (py ''P_cluster_3_medoid'')),
          Sleep 10, Print (JobStatus (py ''P_cluster_3_medoid'') (py ''cluster_3_medoid'') (py ''UNKNOWN'')),
          Sleep 10, Print (JobStatus (py ''P_cluster_3_medoid'') (py ''cluster_3_medoid'') (py ''COMPLETED''))]) \<and>
   monitor_job_status (sample_poll (py ''P_cluster_9_failed'')) (py ''cluster_9_failed'') (py ''P_cluster_9_failed'')
     = Some (None, [Sleep 10, Print (JobStatus (py ''P_cluster_9_failed'') (py ''cluster_9_failed'') (py ''FAILED''))]) \<and>
   monitor_job_status (sample_poll (py ''P_cluster_3_hangs'')) (py ''cluster_3_hangs'') (py ''P_cluster_3_hangs'')
     = None"
proof (intro conjI)
  have nt: "\<forall>i<2. non_terminal (sample_poll (py ''P_cluster_3_medoid'') i)"
    by (simp add: sample_poll_def non_terminal_def less_Suc_eq numeral_2_eq_2)
  have k: "sample_poll (py ''P_cluster_3_medoid'') 2 = Response 200 sample_completed"
    by (simp add: sample_poll_def)
  have ok: "\<not> raise_for_status 200" by (simp add: raise_for_status_def)
  have st: "status sample_completed = Some (py ''COMPLETED'')" by (simp add: sample_completed_def)
  have up: "[0..<3] = [0, 1, 2::nat]" by (simp add: upt_rec)
  show "monitor_job_status (sample_poll (py ''P_cluster_3_medoid'')) (py ''cluster_3_medoid'') (py ''P_cluster_3_medoid'')
     = Some (Some sample_completed,
         [Sleep 10, Print (StatusFetchError (py ''P_cluster_3_medoid'')),
          Sleep 10, Print (JobStatus (py ''P_cluster_3_medoid'') (py ''cluster_3_medoid'') (py ''UNKNOWN'')),
          Sleep 10, Print (JobStatus (py ''P_cluster_3_medoid'') (py ''cluster_3_medoid'') (py ''COMPLETED''))])"
  proof -
    have "monitor_job_status (sample_poll (py ''P_cluster_3_medoid'')) (py ''cluster_3_medoid'')
        (py ''P_cluster_3_medoid'') =
      Some (Some sample_completed,
        concat (map (\<lambda>i. poll_events (py ''P_cluster_3_medoid'') (py ''cluster_3_medoid'')
                        (sample_poll (py ''P_cluster_3_medoid'') i)) [0..<Suc 2]))"
      using monitor_job_status_spec [where k = 2 and poll = "sample_poll (py ''P_cluster_3_medoid'')"
        and code = 200 and j = sample_completed and seq_id = "(py ''cluster_3_medoid'')"
        and pid = "(py ''P_cluster_3_medoid'')", THEN conjunct1] nt k ok st
      by blast
    then show ?thesis
      by (simp add: up poll_events_def sample_poll_def raise_for_status_def sample_completed_def)
  qed
next
  have k: "sample_poll (py ''P_cluster_9_failed'') 0 = Response 200 \<lparr>status = Some (py ''FAILED''), models = None\<rparr>"
    by (simp add: sample_poll_def)
  have ok: "\<not> raise_for_status 200" by (simp add: raise_for_status_def)
  show "monitor_job_status (sample_poll (py ''P_cluster_9_failed'')) (py ''cluster_9_failed'') (py ''P_cluster_9_failed'')
     = Some (None, [Sleep 10, Print (JobStatus (py ''P_cluster_9_failed'') (py ''cluster_9_failed'') (py ''FAILED''))])"
  proof -
    have "monitor_job_status (sample_poll (py ''P_cluster_9_failed'')) (py ''cluster_9_failed'')
        (py ''P_cluster_9_failed'') =
      Some (None,
        concat (map (\<lambda>i. poll_events (py ''P_cluster_9_failed'') (py ''cluster_9_failed'')
                        (sample_poll (py ''P_cluster_9_failed'') i)) [0..<Suc 0]))"
      using monitor_job_status_spec [where k = 0 and poll = "sample_poll (py ''P_cluster_9_failed'')"
        and code = 200 and j = "\<lparr>status = Some (py ''FAILED''), models = None\<rparr>"
        and seq_id = "(py ''cluster_9_failed'')" and pid = "(py ''P_cluster_9_failed'')",
        THEN conjunct2, THEN conjunct1] k ok
      by simp
    then show ?thesis
      by (simp add: poll_events_def sample_poll_def raise_for_status_def)
  qed
next
  have "\<forall>i. non_terminal (sample_poll (py ''P_cluster_3_hangs'') i)"
    by (simp add: sample_poll_def non_terminal_def)
  then show "monitor_job_status (sample_poll (py ''P_cluster_3_hangs'')) (py ''cluster_3_hangs'') (py ''P_cluster_3_hangs'')
     = None"
    using monitor_job_status_spec [where poll = "sample_poll (py ''P_cluster_3_hangs'')"
        and seq_id = "(py ''cluster_3_hangs'')" and pid = "(py ''P_cluster_3_hangs'')"]
    by blast
qed

subsection \<open>Destinations\<close>

lemma digit_char_ascii: "is_ascii_digit (digit_char d)"
proof -
  have "d mod 10 < 10" by simp
  then have "d mod 10 \<le> 9" by arith
  then show ?thesis
    by (simp add: digit_char_def is_ascii_digit_def cp_def)
qed

lemma digit_val_digit_char: "d < 10 \<Longrightarrow> digit_val (digit_char d) = d"
  by (simp add: digit_char_def digit_val_def cp_def)

lemma str_nat_ascii: "list_all is_ascii_digit (str_nat n)"
proof (induction n rule: str_nat.induct)
  case (1 n)
  show ?case
  proof (cases "n < 10")
    case True
    then show ?thesis by (subst str_nat.simps) (simp add: digit_char_ascii)
  next
    case False
    with 1 show ?thesis by (subst str_nat.simps) (simp add: digit_char_ascii)
  qed
qed

lemma nat_of_str_snoc: "nat_of_str (s @ [c]) = 10 * nat_of_str s + digit_val c"
  by (simp add: nat_of_str_def)

lemma nat_of_str_str_nat: "nat_of_str (str_nat n) = n"
proof (induction n rule: str_nat.induct)
  case (1 n)
  show ?case
  proof (cases "n < 10")
    case True
    then show ?thesis
      by (subst str_nat.simps) (simp add: nat_of_str_def digit_val_digit_char)
  next
    case False
    with 1 have "nat_of_str (str_nat (n div 10)) = n div 10" by simp
    with False show ?thesis
      by (subst str_nat.simps) (simp add: nat_of_str_snoc digit_val_digit_char)
  qed
qed

lemma nat_of_str_zeros: "nat_of_str (replicate k (cp (CHR ''0'')) @ s) = nat_of_str s"
proof (induction k)
  case 0
  show ?case by simp
next
  case (Suc k)
  have z: "digit_val (cp (CHR ''0'')) = 0" by (simp add: digit_val_def cp_def)
  have "foldl (\<lambda>a c. 10 * a + digit_val c) 0 (cp (CHR ''0'') # replicate k (cp (CHR ''0'')) @ s) =
        foldl (\<lambda>a c. 10 * a + digit_val c) 0 (replicate k (cp (CHR ''0'')) @ s)"
    by (simp add: z)
  with Suc show ?case by (simp add: nat_of_str_def)
qed

lemma nat_of_str_format_03: "nat_of_str (format_03 n) = n"
  by (simp add: format_03_def nat_of_str_zeros nat_of_str_str_nat)

lemma format_03_inj: "format_03 m = format_03 n \<Longrightarrow> m = n"
  by (metis nat_of_str_format_03)

lemma format_03_length: "3 \<le> length (format_03 n)"
  by (simp add: format_03_def)

lemma format_03_ascii: "list_all is_ascii_digit (format_03 n)"
proof -
  have "is_ascii_digit (cp (CHR ''0''))" by (simp add: is_ascii_digit_def cp_def)
  then have "list_all is_ascii_digit (replicate (3 - length (str_nat n)) (cp (CHR ''0'')))"
    by (simp add: list_all_iff)
  with str_nat_ascii [of n] show ?thesis by (simp add: format_03_def)
qed

lemma ascii_digits_allowed: "list_all is_ascii_digit s \<Longrightarrow> list_all allowed_char s"
  by (simp add: list_all_iff ascii_digit_allowed)

lemma sanitize_filename_append:
  "sanitize_filename (a @ b) = sanitize_filename a @ sanitize_filename b"
  by (simp add: sanitize_filename_def)

lemma re_search_digits_Some_digits:
  "re_search_digits lit s = Some g \<Longrightarrow> list_all is_digit g"
proof (induction s)
  case Nil
  then show ?case by simp
next
  case (Cons c cs)
  then show ?case
    by (auto simp: list_all_iff split: if_splits dest: set_takeWhileD)
qed

lemma cluster_number_cases:
  "cluster_number seq_id = py ''unknown'' \<or> list_all is_digit (cluster_number seq_id)"
  by (auto simp: cluster_number_def split: option.splits dest: re_search_digits_Some_digits)

lemma cluster_number_no_underscore: "cp (CHR ''_'') \<notin> set (cluster_number seq_id)"
proof
  assume m: "cp (CHR ''_'') \<in> set (cluster_number seq_id)"
  from cluster_number_cases [of seq_id] show False
  proof
    assume "cluster_number seq_id = py ''unknown''"
    with m show False by (simp add: py_def cp_def)
  next
    assume "list_all is_digit (cluster_number seq_id)"
    with m have "is_digit (cp (CHR ''_''))" by (simp add: list_all_iff)
    with underscore_not_digit show False by simp
  qed
qed

text \<open>A cluster number written with the digits \<open>0\<close> to \<open>9\<close>, or the sentinel.\<close>

lemma plain_cluster_number_sanitized:
  "list_all is_ascii_digit n \<or> n = py ''unknown'' \<Longrightarrow> sanitize_filename n = n"
proof (erule disjE)
  assume "list_all is_ascii_digit n"
  then show ?thesis by (intro sanitize_filename_id ascii_digits_allowed)
next
  assume "n = py ''unknown''"
  then show ?thesis
    by (simp add: sanitize_filename_def allowed_char_def is_lower_def py_def cp_def)
qed

lemma file_extension_allowed: "list_all allowed_char (file_extension t)"
  by (simp add: file_extension_def allowed_char_def is_lower_def py_def cp_def)

lemma safe_filename_eq:
  "safe_filename seq_id i t =
   py ''cluster_'' @ sanitize_filename (cluster_number seq_id) @ py ''_model_'' @ format_03 i @
   file_extension t"
proof -
  have 1: "sanitize_filename (py ''cluster_'') = py ''cluster_''"
    by (simp add: sanitize_filename_def allowed_char_def is_lower_def py_def cp_def)
  have 2: "sanitize_filename (py ''_model_'') = py ''_model_''"
    by (simp add: sanitize_filename_def allowed_char_def is_lower_def py_def cp_def)
  have 3: "sanitize_filename (format_03 i) = format_03 i"
    by (intro sanitize_filename_id ascii_digits_allowed format_03_ascii)
  have 4: "sanitize_filename (file_extension t) = file_extension t"
    by (intro sanitize_filename_id file_extension_allowed)
  show ?thesis
    unfolding safe_filename_def sanitize_filename_append 1 2 3 4 ..
qed

lemma endswith_append:
  "length p \<le> length ys \<Longrightarrow> endswith (xs @ ys) p = endswith ys p"
  by (simp add: endswith_def)

lemma endswith_slash_iff: "endswith s (py ''/'') \<longleftrightarrow> s \<noteq> [] \<and> last s = cp (CHR ''/'')"
  by (cases s rule: rev_cases) (auto simp: endswith_def py_def)

lemma startswith_slash_iff: "startswith s (py ''/'') \<longleftrightarrow> s \<noteq> [] \<and> hd s = cp (CHR ''/'')"
  by (cases s) (auto simp: startswith_def py_def)

lemma path_join_append:
  "a \<noteq> [] \<Longrightarrow> last a \<noteq> cp (CHR ''/'') \<Longrightarrow> b \<noteq> [] \<Longrightarrow> hd b \<noteq> cp (CHR ''/'') \<Longrightarrow>
   path_join a b = a @ py ''/'' @ b"
  by (simp add: path_join_def endswith_slash_iff startswith_slash_iff)

lemma path_join_out_dir:
  "b \<noteq> [] \<Longrightarrow> hd b \<noteq> cp (CHR ''/'') \<Longrightarrow> path_join (out_dir a) b = out_prefix a @ b"
  by (simp add: path_join_def out_prefix_def startswith_slash_iff)

lemma cluster_folder_eq:
  "cluster_folder a seq_id t =
   out_prefix a @ py ''cluster_'' @ cluster_number seq_id @ py ''_model/'' @ sub_folder t"
proof -
  let ?x = "py ''cluster_'' @ cluster_number seq_id @ py ''_model''"
  have 1: "path_join (out_dir a) ?x = out_prefix a @ ?x"
    by (rule path_join_out_dir) (simp_all add: py_def cp_def)
  have 2: "path_join (out_prefix a @ ?x) (sub_folder t) = (out_prefix a @ ?x) @ py ''/'' @ sub_folder t"
    by (rule path_join_append) (simp_all add: sub_folder_def py_def cp_def)
  show ?thesis
    unfolding cluster_folder_def 1 2 by (simp add: py_def)
qed

lemma dest_filename_eq:
  "dest_filename a (seq_id, url, i, t) =
   out_prefix a @ py ''cluster_'' @ cluster_number seq_id @ py ''_model/'' @ sub_folder t @
   py ''/cluster_'' @ sanitize_filename (cluster_number seq_id) @ py ''_model_'' @ format_03 i @
   file_extension t"
proof -
  have e: "path_join (cluster_folder a seq_id t) (safe_filename seq_id i t) =
        cluster_folder a seq_id t @ py ''/'' @ safe_filename seq_id i t"
    by (rule path_join_append)
       (simp_all add: cluster_folder_eq safe_filename_eq sub_folder_def py_def cp_def)
  show ?thesis
    unfolding dest_filename.simps e by (simp add: cluster_folder_eq safe_filename_eq py_def)
qed

lemma dest_filename_not_gz: "\<not> endswith (dest_filename a (seq_id, url, i, t)) (py ''.gz'')"
proof -
  have "\<not> endswith (file_extension t) (py ''.gz'')"
    by (simp add: file_extension_def endswith_def py_def cp_def)
  moreover have "dest_filename a (seq_id, url, i, t) =
     (out_prefix a @ py ''cluster_'' @ cluster_number seq_id @ py ''_model/'' @ sub_folder t @
      py ''/cluster_'' @ sanitize_filename (cluster_number seq_id) @ py ''_model_'' @
      format_03 i) @ file_extension t"
    by (simp add: dest_filename_eq)
  moreover have "length (py ''.gz'') \<le> length (file_extension t)"
    by (simp add: file_extension_def)
  ultimately show ?thesis by (simp only: endswith_append not_False_eq_True)
qed

lemma download_and_extract_ok:
  assumes "http_get e url = Response code content" and "\<not> raise_for_status code"
  shows "download_and_extract a e (seq_id, url, i, t) w =
     w\<lparr>dirs := insert (cluster_folder a seq_id t) (dirs w),
       files := (files w)(dest_filename a (seq_id, url, i, t) \<mapsto> content),
       trace := trace w @ [Print (Saved (dest_filename a (seq_id, url, i, t)))]\<rparr>"
  using assms dest_filename_not_gz [of a seq_id url i t]
  by (simp add: download_and_extract.simps Let_def)

lemma download_and_extract_failed:
  assumes "http_get e url = RequestException \<or>
           (\<exists>code content. http_get e url = Response code content \<and> raise_for_status code)"
  shows "download_and_extract a e (seq_id, url, i, t) w =
     w\<lparr>dirs := insert (cluster_folder a seq_id t) (dirs w),
       trace := trace w @ [Print (DownloadFailed url)]\<rparr>"
  using assms
  by (auto simp: download_and_extract.simps Let_def)

subsection \<open>Artifacts of a manifest\<close>

lemma format_03_examples:
  "format_03 1 = py ''001''" "format_03 23 = py ''023''" "format_03 104 = py ''104''"
  "format_03 (Suc 0) = py ''001''"
  by (simp_all add: format_03_def str_nat.simps digit_char_def py_def cp_def numeral_2_eq_2)

lemma cluster_number_medoid: "cluster_number (py ''cluster_3_medoid'') = py ''3''"
  by (simp add: cluster_number_def startswith_def is_digit_def nd_ranges_def py_def cp_def)

lemma out_prefix_sample: "out_prefix sample_api = py ''out/''"
  by (simp add: out_prefix_def sample_api_def endswith_def py_def)

lemma model_data_from_index:
  "(s, u, i, t) \<in> set (model_data_from seq_id i0 ms) \<Longrightarrow> i0 \<le> i \<and> i < i0 + length ms"
proof (induction ms arbitrary: i0)
  case Nil
  then show ?case by simp
next
  case (Cons m ms)
  from Cons.prems consider
    (here) "i = i0" | (later) "(s, u, i, t) \<in> set (model_data_from seq_id (Suc i0) ms)"
    by (auto split: option.splits)
  then show ?case
  proof cases
    case here
    then show ?thesis by simp
  next
    case later
    from Cons.IH [OF later] show ?thesis by simp
  qed
qed

lemma filter_model_data_from_later:
  "filter (\<lambda>(s, u, i, t). i = i0) (model_data_from seq_id (Suc i0) ms) = []"
proof -
  have "\<forall>r \<in> set (model_data_from seq_id (Suc i0) ms). \<not> (\<lambda>(s, u, i, t). i = i0) r"
  proof
    fix r assume r: "r \<in> set (model_data_from seq_id (Suc i0) ms)"
    obtain s u i t where "r = (s, u, i, t)" by (cases r) auto
    with r model_data_from_index [of s u i t seq_id "Suc i0" ms]
    show "\<not> (\<lambda>(s, u, i, t). i = i0) r" by auto
  qed
  then show ?thesis by (simp add: filter_empty_conv)
qed

lemma filter_model_data_from:
  "k < length ms \<Longrightarrow>
   filter (\<lambda>(s, u, i, t). i = i0 + k) (model_data_from seq_id i0 ms) =
   (case modelcif_url (ms ! k) of Some u \<Rightarrow> [(seq_id, u, i0 + k, (py ''modelcif''))] | None \<Rightarrow> []) @
   (case coordinates_url (ms ! k) of Some u \<Rightarrow> [(seq_id, u, i0 + k, (py ''coordinates''))] | None \<Rightarrow> [])"
proof (induction ms arbitrary: i0 k)
  case Nil
  then show ?case by simp
next
  case (Cons m ms)
  show ?case
  proof (cases k)
    case 0
    then show ?thesis
      by (simp add: filter_model_data_from_later split: option.splits)
  next
    case (Suc k')
    with Cons.prems have "k' < length ms" by simp
    from Cons.IH [OF this, of "Suc i0"] Suc show ?thesis
      by (simp split: option.splits)
  qed
qed

subsection \<open>Downloads\<close>

lemma out_prefix_out: "out_dir a = py ''out'' \<Longrightarrow> out_prefix a = py ''out/''"
  by (simp add: out_prefix_def endswith_def py_def)

lemma sample_destinations:
  assumes "out_dir a = py ''out''" and "cluster_number s = py ''3''"
  shows "dest_filename a (s, url, Suc 0, py ''modelcif'') =
           py ''out/cluster_3_model/CIF/cluster_3_model_001.cif''"
    and "dest_filename a (s, url, Suc 0, py ''coordinates'') =
           py ''out/cluster_3_model/PDB/cluster_3_model_001.pdb''"
    and "cluster_folder a s (py ''modelcif'') = py ''out/cluster_3_model/CIF''"
    and "cluster_folder a s (py ''coordinates'') = py ''out/cluster_3_model/PDB''"
  using assms
  by (simp_all add: dest_filename_eq cluster_folder_eq out_prefix_out sub_folder_def
      file_extension_def format_03_examples sanitize_filename_def allowed_char_def
      is_ascii_digit_def py_def cp_def)

lemma sample_api_out: "out_dir sample_api = py ''out''"
  by (simp add: sample_api_def)

text \<open>
  Claim C10. When the download of an artifact fails, by an exception of \<open>requests\<close> or by
  an HTTP error status, \<open>_download_and_extract\<close> leaves every file as it was, the
  destination included: nothing is created or overwritten, and the failure is printed.
\<close>

theorem download_failure_keeps_files:
  assumes "http_get e url = RequestException \<or>
           (\<exists>code content. http_get e url = Response code content \<and> raise_for_status code)"
  shows "files (download_and_extract a e (seq_id, url, i, t) w) = files w \<and>
         files (download_and_extract a e (seq_id, url, i, t) w)
           (dest_filename a (seq_id, url, i, t)) = files w (dest_filename a (seq_id, url, i, t)) \<and>
         trace (download_and_extract a e (seq_id, url, i, t) w) =
           trace w @ [Print (DownloadFailed url)]"
  by (simp add: download_and_extract_failed [OF assms])

theorem download_failure_keeps_files_witness:
  "files (download_and_extract sample_api sample_env
       ((py ''cluster_3_medoid''), (py ''https://swissmodel.expasy.org/m/gone''), 1, (py ''modelcif''))
       (empty_world\<lparr>files := [(py ''out/cluster_3_model/CIF/cluster_3_model_001.cif'') \<mapsto> [7]]\<rparr>))
     = [(py ''out/cluster_3_model/CIF/cluster_3_model_001.cif'') \<mapsto> [7]] \<and>
   dest_filename sample_api
     ((py ''cluster_3_medoid''), (py ''https://swissmodel.expasy.org/m/gone''), 1, (py ''modelcif'')) =
     (py ''out/cluster_3_model/CIF/cluster_3_model_001.cif'')"
proof -
  have "http_get sample_env (py ''https://swissmodel.expasy.org/m/gone'') = RequestException \<or>
        (\<exists>code content. http_get sample_env (py ''https://swissmodel.expasy.org/m/gone'') =
           Response code content \<and> raise_for_status code)"
    by (simp add: sample_env_def sample_get_def raise_for_status_def)
  from download_failure_keeps_files [OF this, of sample_api "(py ''cluster_3_medoid'')" 1 "(py ''modelcif'')"
      "empty_world\<lparr>files := [(py ''out/cluster_3_model/CIF/cluster_3_model_001.cif'') \<mapsto> [7]]\<rparr>"]
  show ?thesis
    by (simp add: sample_destinations [OF sample_api_out cluster_number_medoid])
qed

text \<open>
  Claim C3, at a URL that ends in \<open>.gz\<close>: the downloaded bytes are written to the final
  name as they arrived, the decompressor is not applied and no temporary file is involved,
  because the test for \<open>.gz\<close> looks at the destination, which ends in \<open>.cif\<close> or \<open>.pdb\<close>.
\<close>

theorem gz_url_saved_without_decompression:
  "endswith (raw_filename (py ''https://swissmodel.expasy.org/m/01.cif.gz'')) (py ''.gz'') \<and>
   download_and_extract sample_api sample_env
     ((py ''cluster_3_medoid''), (py ''https://swissmodel.expasy.org/m/01.cif.gz''), 1, (py ''modelcif''))
     empty_world =
   \<lparr>files = [(py ''out/cluster_3_model/CIF/cluster_3_model_001.cif'') \<mapsto> [31, 139, 8]],
    dirs = {(py ''out/cluster_3_model/CIF'')},
    trace = [Print (Saved (py ''out/cluster_3_model/CIF/cluster_3_model_001.cif''))]\<rparr> \<and>
   gunzip sample_env [31, 139, 8] \<noteq> [31, 139, 8]"
proof (intro conjI)
  show "endswith (raw_filename (py ''https://swissmodel.expasy.org/m/01.cif.gz'')) (py ''.gz'')"
    by (simp add: raw_filename_def endswith_def py_def cp_def)
  have "http_get sample_env (py ''https://swissmodel.expasy.org/m/01.cif.gz'') = Response 200 [31, 139, 8]"
    by (simp add: sample_env_def sample_get_def)
  moreover have "\<not> raise_for_status 200" by (simp add: raise_for_status_def)
  ultimately show "download_and_extract sample_api sample_env
     ((py ''cluster_3_medoid''), (py ''https://swissmodel.expasy.org/m/01.cif.gz''), 1, (py ''modelcif''))
     empty_world =
   \<lparr>files = [(py ''out/cluster_3_model/CIF/cluster_3_model_001.cif'') \<mapsto> [31, 139, 8]],
    dirs = {(py ''out/cluster_3_model/CIF'')},
    trace = [Print (Saved (py ''out/cluster_3_model/CIF/cluster_3_model_001.cif''))]\<rparr>"
    by (simp add: download_and_extract_ok
        sample_destinations [OF sample_api_out cluster_number_medoid] empty_world_def)
  show "gunzip sample_env [31, 139, 8] \<noteq> [31, 139, 8]"
    by (simp add: sample_env_def)
qed

subsection \<open>Uniqueness of destinations\<close>

lemma split_at_first:
  assumes "x \<notin> set a" and "x \<notin> set b" and "a @ x # r = b @ x # r'"
  shows "a = b \<and> r = r'"
proof -
  have "takeWhile (\<lambda>c. c \<noteq> x) (a @ x # r) = a"
    using assms(1) by (induction a) auto
  moreover have "takeWhile (\<lambda>c. c \<noteq> x) (b @ x # r') = b"
    using assms(2) by (induction b) auto
  ultimately have "a = b" using assms(3) by simp
  with assms(3) show ?thesis by simp
qed

lemma hd_sub_folder:
  "hd (sub_folder t @ xs) = (if t = py ''modelcif'' then cp (CHR ''C'') else cp (CHR ''P''))"
  by (simp add: sub_folder_def py_def)

lemma dest_filename_key:
  assumes "dest_filename a (s, u, i, t) = dest_filename a (s', u', i', t')"
  shows "ref_key (s, u, i, t) = ref_key (s', u', i', t')"
proof -
  let ?N = "cluster_number s" and ?N' = "cluster_number s'"
  let ?q = "py ''/cluster_'' @ sanitize_filename ?N @ py ''_model_'' @ format_03 i @
            file_extension t"
  let ?q' = "py ''/cluster_'' @ sanitize_filename ?N' @ py ''_model_'' @ format_03 i' @
            file_extension t'"
  have m: "py ''_model/'' = cp (CHR ''_'') # py ''model/''" by (simp add: py_def)
  from assms have "?N @ cp (CHR ''_'') # (py ''model/'' @ sub_folder t @ ?q) =
      ?N' @ cp (CHR ''_'') # (py ''model/'' @ sub_folder t' @ ?q')"
    by (simp add: dest_filename_eq m)
  note nr = split_at_first [OF cluster_number_no_underscore cluster_number_no_underscore this]
  have N: "?N = ?N'" using nr by (rule conjunct1)
  have "py ''model/'' @ sub_folder t @ ?q = py ''model/'' @ sub_folder t' @ ?q'"
    using nr by (rule conjunct2)
  then have r: "sub_folder t @ ?q = sub_folder t' @ ?q'"
    by (simp only: same_append_eq)
  then have "hd (sub_folder t @ ?q) = hd (sub_folder t' @ ?q')"
    by (rule arg_cong)
  then have t: "(t = py ''modelcif'') = (t' = py ''modelcif'')"
    unfolding hd_sub_folder by (simp add: cp_def split: if_splits)
  then have sf: "sub_folder t' = sub_folder t" and fe: "file_extension t' = file_extension t"
    by (simp_all add: sub_folder_def file_extension_def)
  from r have "?q = ?q'" unfolding sf by (simp only: same_append_eq)
  then have "format_03 i @ file_extension t = format_03 i' @ file_extension t"
    unfolding fe N by (simp only: same_append_eq)
  then have "i = i'" by (simp add: format_03_inj)
  with N t show ?thesis by simp
qed

lemma distinct_map_key:
  "distinct (map k xs) \<Longrightarrow> (\<And>x y. f x = f y \<Longrightarrow> k x = k y) \<Longrightarrow> distinct (map f xs)"
proof (induction xs)
  case Nil
  show ?case by simp
next
  case (Cons x xs)
  have "f x \<notin> f ` set xs"
  proof
    assume "f x \<in> f ` set xs"
    then obtain y where y: "y \<in> set xs" and fy: "f x = f y" by auto
    from fy have "k x = k y" by (rule Cons.prems(2))
    with y have "k x \<in> k ` set xs" by (simp only: image_eqI)
    with Cons.prems(1) show False by simp
  qed
  moreover have "distinct (map f xs)"
  proof (rule Cons.IH)
    show "distinct (map k xs)" using Cons.prems(1) by simp
    show "\<And>x y. f x = f y \<Longrightarrow> k x = k y" by (rule Cons.prems(2))
  qed
  ultimately show ?case by simp
qed


lemma model_data_from_keys_distinct:
  "distinct (map ref_key (model_data_from seq_id i0 ms))"
proof (induction ms arbitrary: i0)
  case Nil
  show ?case by simp
next
  case (Cons m ms)
  have later: "\<And>b. (cluster_number seq_id, i0, b) \<notin> ref_key ` set (model_data_from seq_id (Suc i0) ms)"
  proof
    fix b assume "(cluster_number seq_id, i0, b) \<in> ref_key ` set (model_data_from seq_id (Suc i0) ms)"
    then obtain s u i t where "(s, u, i, t) \<in> set (model_data_from seq_id (Suc i0) ms)"
      and "i = i0"
      by auto
    with model_data_from_index [of s u i t seq_id "Suc i0" ms] show False by simp
  qed
  with Cons.IH [of "Suc i0"] show ?case
    by (auto split: option.splits)
qed





lemma fetch_refs_sample:
  "fetch_refs seq_id sample_completed =
     [(seq_id, (py ''https://swissmodel.expasy.org/m/01.cif.gz''), 1, (py ''modelcif'')),
      (seq_id, (py ''https://swissmodel.expasy.org/m/01.pdb.gz''), 1, (py ''coordinates''))]"
  by (simp add: fetch_refs_def sample_completed_def sample_model_def)




subsection \<open>The files of a fetch\<close>

lemma fetch_refs_dest_distinct: "distinct (map (dest_filename a) (fetch_refs seq_id summary))"
proof (rule distinct_map_key)
  show "distinct (map ref_key (fetch_refs seq_id summary))"
    unfolding fetch_refs_def by (rule model_data_from_keys_distinct)
next
  fix x y :: model_ref
  assume e: "dest_filename a x = dest_filename a y"
  obtain s u i t where x: "x = (s, u, i, t)" by (cases x) auto
  obtain s' u' i' t' where y: "y = (s', u', i', t')" by (cases y) auto
  from e show "ref_key x = ref_key y"
    unfolding x y by (rule dest_filename_key)
qed

lemma download_and_extract_other_file:
  assumes "p \<noteq> dest_filename a r"
  shows "files (download_and_extract a e r w) p = files w p"
proof -
  obtain s u i t where r: "r = (s, u, i, t)" by (cases r) auto
  show ?thesis
  proof (cases "http_get e u")
    case RequestException
    then show ?thesis unfolding r by (simp add: download_and_extract_failed)
  next
    case (Response code content)
    show ?thesis
    proof (cases "raise_for_status code")
      case True
      with Response have "http_get e u = RequestException \<or>
          (\<exists>code content. http_get e u = Response code content \<and> raise_for_status code)"
        by blast
      then show ?thesis unfolding r by (simp add: download_and_extract_failed)
    next
      case False
      from assms show ?thesis
        unfolding r by (simp add: download_and_extract_ok [OF Response False])
    qed
  qed
qed

lemma downloads_leave_file:
  assumes "distinct (map (dest_filename a) xs)" and "(s, u, i, t) \<in> set xs"
    and "http_get e u = Response code content" and "\<not> raise_for_status code"
  shows "files (foldl (\<lambda>w' md. download_and_extract a e md w') w xs)
           (dest_filename a (s, u, i, t)) = Some content"
  using assms(1,2)
proof (induction xs rule: rev_induct)
  case Nil
  then show ?case by simp
next
  case (snoc x xs)
  let ?w = "foldl (\<lambda>w' md. download_and_extract a e md w') w xs"
  show ?case
  proof (cases "x = (s, u, i, t)")
    case True
    then show ?thesis
      by (simp add: download_and_extract_ok [OF assms(3,4)])
  next
    case False
    with snoc.prems(2) have mem: "(s, u, i, t) \<in> set xs" by simp
    from snoc.prems(1) have d: "distinct (map (dest_filename a) xs)"
      and n: "dest_filename a x \<notin> dest_filename a ` set xs"
      by simp_all
    have "dest_filename a (s, u, i, t) \<noteq> dest_filename a x"
    proof
      assume "dest_filename a (s, u, i, t) = dest_filename a x"
      with mem have "dest_filename a x \<in> dest_filename a ` set xs"
        by (metis imageI)
      with n show False by simp
    qed
    then have "files (download_and_extract a e x ?w) (dest_filename a (s, u, i, t)) =
        files ?w (dest_filename a (s, u, i, t))"
      by (rule download_and_extract_other_file)
    with snoc.IH [OF d mem] show ?thesis by simp
  qed
qed

lemma fetch_leaves_file:
  assumes "mset (lock_order e (fetch_refs seq_id summary)) = mset (fetch_refs seq_id summary)"
    and "(s, u, i, t) \<in> set (fetch_refs seq_id summary)"
    and "http_get e u = Response code content" and "\<not> raise_for_status code"
  shows "files (fetch_model_results a e seq_id summary w) (dest_filename a (s, u, i, t)) =
           Some content"
proof -
  let ?xs = "lock_order e (fetch_refs seq_id summary)"
  have "mset (map (dest_filename a) ?xs) = mset (map (dest_filename a) (fetch_refs seq_id summary))"
    using assms(1) by simp
  then have "distinct (map (dest_filename a) ?xs) =
      distinct (map (dest_filename a) (fetch_refs seq_id summary))"
    by (rule mset_eq_imp_distinct_iff)
  with fetch_refs_dest_distinct [of a seq_id summary]
  have d: "distinct (map (dest_filename a) ?xs)" by blast
  have "set ?xs = set (fetch_refs seq_id summary)"
    using assms(1) by (rule mset_eq_setD)
  with assms(2) have m: "(s, u, i, t) \<in> set ?xs" by simp
  from assms(2) have ne: "fetch_refs seq_id summary \<noteq> []" by auto
  have "files (foldl (\<lambda>w' md. download_and_extract a e md w') w ?xs)
           (dest_filename a (s, u, i, t)) = Some content"
    using d m assms(3,4) by (rule downloads_leave_file)
  with ne show ?thesis by (simp add: fetch_model_results_def)
qed

lemma arabic_cluster_number: "cluster_number arabic_id = [1635]"
  by (simp add: arabic_id_def cluster_number_def startswith_def is_digit_def nd_ranges_def
      py_def cp_def)

text \<open>
  Claim C7, as amended. Let the manifest entry of model number \<open>i = k + 1\<close> carry both URLs,
  and let the workers of the pool take the lock in any order. Then the refs of that model
  number are exactly two, one of type \<open>modelcif\<close> and one of type \<open>coordinates\<close>. Their
  destinations are, under the output root and its folder \<open>cluster_N_model\<close>, the file
  \<open>cluster_M_model_iii.cif\<close> in the subfolder \<open>CIF\<close> and the file \<open>cluster_M_model_iii.pdb\<close>
  in the subfolder \<open>PDB\<close>, where \<open>N\<close> is the cluster number, \<open>M\<close> is \<open>N\<close> sanitised, which is \<open>N\<close>
  itself when \<open>N\<close> is written with the digits \<open>0\<close> to \<open>9\<close> or is \<open>unknown\<close>, and \<open>iii\<close> is the
  model number in decimal with at least three digits. After \<open>fetch_model_results\<close>, each of
  the two destinations whose download succeeded holds the downloaded bytes. Model numbers
  1, 23 and 104 are written \<open>001\<close>, \<open>023\<close> and \<open>104\<close>.
\<close>

theorem both_urls_two_artifacts:
  assumes "models summary = Some ms" and "k < length ms"
    and "modelcif_url (ms ! k) = Some u1" and "coordinates_url (ms ! k) = Some u2"
    and "mset (lock_order e (fetch_refs seq_id summary)) = mset (fetch_refs seq_id summary)"
  shows "filter (\<lambda>(s, u, i, t). i = Suc k) (fetch_refs seq_id summary) =
           [(seq_id, u1, Suc k, py ''modelcif''), (seq_id, u2, Suc k, py ''coordinates'')] \<and>
         dest_filename a (seq_id, u1, Suc k, py ''modelcif'') =
           out_prefix a @ py ''cluster_'' @ cluster_number seq_id @ py ''_model/CIF/cluster_'' @
           sanitize_filename (cluster_number seq_id) @ py ''_model_'' @ format_03 (Suc k) @
           py ''.cif'' \<and>
         dest_filename a (seq_id, u2, Suc k, py ''coordinates'') =
           out_prefix a @ py ''cluster_'' @ cluster_number seq_id @ py ''_model/PDB/cluster_'' @
           sanitize_filename (cluster_number seq_id) @ py ''_model_'' @ format_03 (Suc k) @
           py ''.pdb'' \<and>
         (list_all is_ascii_digit (cluster_number seq_id) \<or> cluster_number seq_id = py ''unknown''
            \<longrightarrow> sanitize_filename (cluster_number seq_id) = cluster_number seq_id) \<and>
         (http_get e u1 = Response code1 content1 \<and> \<not> raise_for_status code1 \<longrightarrow>
            files (fetch_model_results a e seq_id summary w)
              (dest_filename a (seq_id, u1, Suc k, py ''modelcif'')) = Some content1) \<and>
         (http_get e u2 = Response code2 content2 \<and> \<not> raise_for_status code2 \<longrightarrow>
            files (fetch_model_results a e seq_id summary w)
              (dest_filename a (seq_id, u2, Suc k, py ''coordinates'')) = Some content2) \<and>
         3 \<le> length (format_03 (Suc k)) \<and> list_all is_ascii_digit (format_03 (Suc k)) \<and>
         nat_of_str (format_03 (Suc k)) = Suc k \<and>
         format_03 1 = py ''001'' \<and> format_03 23 = py ''023'' \<and> format_03 104 = py ''104''"
proof -
  have refs: "filter (\<lambda>(s, u, i, t). i = Suc k) (fetch_refs seq_id summary) =
           [(seq_id, u1, Suc k, py ''modelcif''), (seq_id, u2, Suc k, py ''coordinates'')]"
    using filter_model_data_from [OF assms(2), of 1 seq_id] assms(1,3,4)
    by (simp add: fetch_refs_def)
  have "(seq_id, u1, Suc k, py ''modelcif'') \<in>
      set (filter (\<lambda>(s, u, i, t). i = Suc k) (fetch_refs seq_id summary))"
    unfolding refs by simp
  then have m1: "(seq_id, u1, Suc k, py ''modelcif'') \<in> set (fetch_refs seq_id summary)"
    by simp
  have "(seq_id, u2, Suc k, py ''coordinates'') \<in>
      set (filter (\<lambda>(s, u, i, t). i = Suc k) (fetch_refs seq_id summary))"
    unfolding refs by simp
  then have m2: "(seq_id, u2, Suc k, py ''coordinates'') \<in> set (fetch_refs seq_id summary)"
    by simp
  have cif: "dest_filename a (seq_id, u1, Suc k, py ''modelcif'') =
           out_prefix a @ py ''cluster_'' @ cluster_number seq_id @ py ''_model/CIF/cluster_'' @
           sanitize_filename (cluster_number seq_id) @ py ''_model_'' @ format_03 (Suc k) @
           py ''.cif''"
    by (simp add: dest_filename_eq sub_folder_def file_extension_def py_def)
  have pdb: "dest_filename a (seq_id, u2, Suc k, py ''coordinates'') =
           out_prefix a @ py ''cluster_'' @ cluster_number seq_id @ py ''_model/PDB/cluster_'' @
           sanitize_filename (cluster_number seq_id) @ py ''_model_'' @ format_03 (Suc k) @
           py ''.pdb''"
    by (simp add: dest_filename_eq sub_folder_def file_extension_def py_def cp_def)
  have plain: "list_all is_ascii_digit (cluster_number seq_id) \<or>
      cluster_number seq_id = py ''unknown''
      \<longrightarrow> sanitize_filename (cluster_number seq_id) = cluster_number seq_id"
    using plain_cluster_number_sanitized [of "cluster_number seq_id"] by (rule impI)
  have d1: "http_get e u1 = Response code1 content1 \<and> \<not> raise_for_status code1 \<longrightarrow>
            files (fetch_model_results a e seq_id summary w)
              (dest_filename a (seq_id, u1, Suc k, py ''modelcif'')) = Some content1"
    using fetch_leaves_file [OF assms(5) m1] by blast
  have d2: "http_get e u2 = Response code2 content2 \<and> \<not> raise_for_status code2 \<longrightarrow>
            files (fetch_model_results a e seq_id summary w)
              (dest_filename a (seq_id, u2, Suc k, py ''coordinates'')) = Some content2"
    using fetch_leaves_file [OF assms(5) m2] by blast
  show ?thesis
    using refs cif pdb plain d1 d2 format_03_length [of "Suc k"] format_03_ascii [of "Suc k"]
      nat_of_str_format_03 [of "Suc k"] format_03_examples(1,2,3)
    by (intro conjI)
qed

theorem both_urls_two_artifacts_witness:
  "filter (\<lambda>(s, u, i, t). i = Suc 0) (fetch_refs (py ''cluster_3_medoid'') sample_completed) =
     [(py ''cluster_3_medoid'', py ''https://swissmodel.expasy.org/m/01.cif.gz'', Suc 0,
       py ''modelcif''),
      (py ''cluster_3_medoid'', py ''https://swissmodel.expasy.org/m/01.pdb.gz'', Suc 0,
       py ''coordinates'')] \<and>
   dest_filename sample_api
     (py ''cluster_3_medoid'', py ''https://swissmodel.expasy.org/m/01.cif.gz'', Suc 0,
      py ''modelcif'') =
     py ''out/cluster_3_model/CIF/cluster_3_model_001.cif'' \<and>
   dest_filename sample_api
     (py ''cluster_3_medoid'', py ''https://swissmodel.expasy.org/m/01.pdb.gz'', Suc 0,
      py ''coordinates'') =
     py ''out/cluster_3_model/PDB/cluster_3_model_001.pdb'' \<and>
   files (fetch_model_results sample_api sample_env (py ''cluster_3_medoid'') sample_completed
       empty_world)
     (py ''out/cluster_3_model/CIF/cluster_3_model_001.cif'') = Some [31, 139, 8] \<and>
   files (fetch_model_results sample_api sample_env (py ''cluster_3_medoid'') sample_completed
       empty_world)
     (py ''out/cluster_3_model/PDB/cluster_3_model_001.pdb'') = Some [31, 139, 8]"
proof -
  have 1: "models sample_completed = Some [sample_model]" by (simp add: sample_completed_def)
  have 2: "0 < length [sample_model]" by simp
  have 3: "modelcif_url ([sample_model] ! 0) = Some (py ''https://swissmodel.expasy.org/m/01.cif.gz'')"
    by (simp add: sample_model_def)
  have 4: "coordinates_url ([sample_model] ! 0) = Some (py ''https://swissmodel.expasy.org/m/01.pdb.gz'')"
    by (simp add: sample_model_def)
  have 5: "mset (lock_order sample_env (fetch_refs (py ''cluster_3_medoid'') sample_completed)) =
      mset (fetch_refs (py ''cluster_3_medoid'') sample_completed)"
    by (simp add: sample_env_def)
  have g1: "http_get sample_env (py ''https://swissmodel.expasy.org/m/01.cif.gz'') =
      Response 200 [31, 139, 8] \<and> \<not> raise_for_status 200"
    by (simp add: sample_env_def sample_get_def raise_for_status_def)
  have g2: "http_get sample_env (py ''https://swissmodel.expasy.org/m/01.pdb.gz'') =
      Response 200 [31, 139, 8] \<and> \<not> raise_for_status 200"
    by (simp add: sample_env_def sample_get_def raise_for_status_def)
  note d = sample_destinations [OF sample_api_out cluster_number_medoid]
  note t = both_urls_two_artifacts [OF 1 2 3 4 5, where a = sample_api
        and ?code1.0 = 200 and ?content1.0 = "[31, 139, 8]"
        and ?code2.0 = 200 and ?content2.0 = "[31, 139, 8]" and w = empty_world]
  from t have r: "filter (\<lambda>(s, u, i, t). i = Suc 0)
      (fetch_refs (py ''cluster_3_medoid'') sample_completed) =
     [(py ''cluster_3_medoid'', py ''https://swissmodel.expasy.org/m/01.cif.gz'', Suc 0,
       py ''modelcif''),
      (py ''cluster_3_medoid'', py ''https://swissmodel.expasy.org/m/01.pdb.gz'', Suc 0,
       py ''coordinates'')]"
    by (rule conjunct1)
  from t g1 have f1: "files (fetch_model_results sample_api sample_env (py ''cluster_3_medoid'')
       sample_completed empty_world)
     (dest_filename sample_api
       (py ''cluster_3_medoid'', py ''https://swissmodel.expasy.org/m/01.cif.gz'', Suc 0,
        py ''modelcif''))
     = Some [31, 139, 8]"
    by (elim conjE) (erule mp, simp)
  from t g2 have f2: "files (fetch_model_results sample_api sample_env (py ''cluster_3_medoid'')
       sample_completed empty_world)
     (dest_filename sample_api
       (py ''cluster_3_medoid'', py ''https://swissmodel.expasy.org/m/01.pdb.gz'', Suc 0,
        py ''coordinates''))
     = Some [31, 139, 8]"
    by (elim conjE) (erule mp, simp)
  show ?thesis
    using r d(1) d(2) f1 [unfolded d(1)] f2 [unfolded d(2)] by (intro conjI)
qed

text \<open>
  Claim C7 as stated fails at a cluster number that is not written with the digits \<open>0\<close>
  to \<open>9\<close>: the folder carries the cluster number, the file name carries an underscore in
  its place.
\<close>

theorem unicode_cluster_number_file_name:
  "cluster_number arabic_id = [1635] \<and>
   dest_filename sample_api
     (arabic_id, py ''https://swissmodel.expasy.org/m/01.cif.gz'', 1, py ''modelcif'') =
     py ''out/cluster_'' @ [1635] @ py ''_model/CIF/cluster___model_001.cif'' \<and>
   dest_filename sample_api
     (arabic_id, py ''https://swissmodel.expasy.org/m/01.cif.gz'', 1, py ''modelcif'') \<noteq>
     py ''out/cluster_'' @ [1635] @ py ''_model/CIF/cluster_'' @ [1635] @ py ''_model_001.cif''"
proof -
  have d: "dest_filename sample_api
     (arabic_id, py ''https://swissmodel.expasy.org/m/01.cif.gz'', 1, py ''modelcif'') =
     py ''out/cluster_'' @ [1635] @ py ''_model/CIF/cluster___model_001.cif''"
    by (simp add: dest_filename_eq arabic_cluster_number out_prefix_sample sub_folder_def
        file_extension_def format_03_examples sanitize_filename_def allowed_char_def
        is_upper_def is_lower_def is_ascii_digit_def py_def cp_def)
  show ?thesis
    unfolding d by (simp add: arabic_cluster_number py_def cp_def)
qed

subsection \<open>The orchestrator\<close>

lemma submit_loop_events:
  "list_all submit_event tr \<Longrightarrow> list_all submit_event (snd (submit_loop post seq_id attempt tr))"
proof (induction post seq_id attempt tr rule: submit_loop.induct)
  case (1 post seq_id attempt tr)
  show ?case
  proof (cases "attempt \<le> 5")
    case False
    with 1(2) show ?thesis by (subst submit_loop.simps) simp
  next
    case True
    show ?thesis
    proof (cases "post attempt")
      case RequestException
      with True 1(2) show ?thesis by (subst submit_loop.simps) simp
    next
      case (Response code body)
      show ?thesis
      proof (cases "code = 429")
        case True
        have "list_all submit_event
            (tr @ [Print (RateLimitHit (attempt * 10)), Sleep (attempt * 10)])"
          using 1(2) by simp
        from 1(1) [OF \<open>attempt \<le> 5\<close> Response True this]
        show ?thesis
          using \<open>attempt \<le> 5\<close> Response True by (subst submit_loop.simps) simp
      next
        case False
        with \<open>attempt \<le> 5\<close> Response 1(2) show ?thesis
          by (subst submit_loop.simps) simp
      qed
    qed
  qed
qed

lemma handle_futures_append:
  "handle_futures a e (rs1 @ rs2) w =
     (case handle_futures a e rs1 w of
        None \<Rightarrow> None
      | Some (Some x, w') \<Rightarrow> Some (Some x, w')
      | Some (None, w') \<Rightarrow> handle_futures a e rs2 w')"
proof (induction rs1 arbitrary: w)
  case Nil
  show ?case by simp
next
  case (Cons r rs1)
  show ?case
  proof (cases "handle_future a e r w")
    case None
    then show ?thesis by simp
  next
    case (Some p)
    obtain x w' where p: "p = (x, w')" by (cases p) auto
    show ?thesis
    proof (cases x)
      case None
      with Some p Cons.IH [of w'] show ?thesis by simp
    next
      case (Some y)
      with \<open>handle_future a e r w = Some p\<close> p show ?thesis by simp
    qed
  qed
qed

lemma sample_submit_limited:
  "submit_request (sample_post (py ''cluster_1_limited'')) (py ''cluster_1_limited'') =
     (None, [Print (RateLimitHit 10), Sleep 10, Print (RateLimitHit 20), Sleep 20,
             Print (RateLimitHit 30), Sleep 30, Print (RateLimitHit 40), Sleep 40,
             Print (RateLimitHit 50), Sleep 50])"
  by (rule submit_request_all_429) (simp add: sample_post_def)

lemma sample_submit_refused:
  "submit_request (sample_post (py ''cluster_2_refused'')) (py ''cluster_2_refused'') =
     (Some ((py ''cluster_2_refused''), None),
      [Print (RateLimitHit 10), Sleep 10, Print (RequestError (py ''cluster_2_refused''))])"
proof -
  have "submit_loop (sample_post (py ''cluster_2_refused'')) (py ''cluster_2_refused'') 1 [] =
        submit_loop (sample_post (py ''cluster_2_refused'')) (py ''cluster_2_refused'') (Suc 1)
          ([] @ backoff_events 1)"
    by (rule submit_loop_429 [where b = None]) (simp_all add: sample_post_def)
  also have "\<dots> = (Some ((py ''cluster_2_refused''), None),
      ([] @ backoff_events 1) @ [Print (RequestError (py ''cluster_2_refused''))])"
    by (rule submit_loop_fail) (simp_all add: sample_post_def raise_for_status_def)
  finally show ?thesis by (simp add: submit_request_def backoff_events_def)
qed

lemma sample_submit_accepted:
  "seq_id \<noteq> (py ''cluster_1_limited'') \<Longrightarrow> seq_id \<noteq> (py ''cluster_2_refused'') \<Longrightarrow>
   submit_request (sample_post seq_id) seq_id = (Some (seq_id, Some ((py ''P_'') @ seq_id)), [])"
  unfolding submit_request_def
  by (rule submit_loop_ok [where code = 200]) (simp_all add: sample_post_def raise_for_status_def)

lemma sample_monitor_medoid:
  "monitor_job_status (sample_poll (py ''P_cluster_3_medoid'')) (py ''cluster_3_medoid'') (py ''P_cluster_3_medoid'')
     = Some (Some sample_completed,
         [Sleep 10, Print (StatusFetchError (py ''P_cluster_3_medoid'')),
          Sleep 10, Print (JobStatus (py ''P_cluster_3_medoid'') (py ''cluster_3_medoid'') (py ''UNKNOWN'')),
          Sleep 10, Print (JobStatus (py ''P_cluster_3_medoid'') (py ''cluster_3_medoid'') (py ''COMPLETED''))])"
proof -
  let ?poll = "sample_poll (py ''P_cluster_3_medoid'')"
  have 0: "non_terminal (?poll 0)" by (simp add: sample_poll_def non_terminal_def)
  have 1: "non_terminal (?poll (Suc 0))" by (simp add: sample_poll_def non_terminal_def)
  have 2: "?poll (Suc (Suc 0)) = Response 200 sample_completed" by (simp add: sample_poll_def)
  have "monitor_loop ?poll (py ''cluster_3_medoid'') (py ''P_cluster_3_medoid'') 0 [] =
        monitor_loop ?poll (py ''cluster_3_medoid'') (py ''P_cluster_3_medoid'') (Suc 0)
          ([] @ poll_events (py ''P_cluster_3_medoid'') (py ''cluster_3_medoid'') (?poll 0))"
    using 0 by (rule monitor_loop_again)
  also have "\<dots> = monitor_loop ?poll (py ''cluster_3_medoid'') (py ''P_cluster_3_medoid'') (Suc (Suc 0))
          (([] @ poll_events (py ''P_cluster_3_medoid'') (py ''cluster_3_medoid'') (?poll 0)) @
           poll_events (py ''P_cluster_3_medoid'') (py ''cluster_3_medoid'') (?poll (Suc 0)))"
    using 1 by (rule monitor_loop_again)
  also have "\<dots> = Some (Some sample_completed,
          (([] @ poll_events (py ''P_cluster_3_medoid'') (py ''cluster_3_medoid'') (?poll 0)) @
           poll_events (py ''P_cluster_3_medoid'') (py ''cluster_3_medoid'') (?poll (Suc 0))) @
           poll_events (py ''P_cluster_3_medoid'') (py ''cluster_3_medoid'') (?poll (Suc (Suc 0))))"
    using 2 by (rule monitor_loop_completed)
       (simp_all add: raise_for_status_def sample_completed_def)
  finally show ?thesis
    by (simp add: monitor_job_status_def poll_events_def sample_poll_def raise_for_status_def
        sample_completed_def)
qed

lemma sample_monitor_hangs:
  "monitor_job_status (sample_poll (py ''P_cluster_3_hangs'')) (py ''cluster_3_hangs'') (py ''P_cluster_3_hangs'')
     = None"
  unfolding monitor_job_status_def
  by (rule monitor_loop_never) (simp add: sample_poll_def non_terminal_def)

lemma sample_get_ok:
  "url \<noteq> (py ''https://swissmodel.expasy.org/m/gone'') \<Longrightarrow>
   http_get sample_env url = Response 200 [31, 139, 8]"
  by (simp add: sample_env_def sample_get_def)

lemma sample_fetch_medoid:
  "out_dir a = py ''out'' \<Longrightarrow>
   fetch_model_results a sample_env (py ''cluster_3_medoid'') sample_completed w =
   w\<lparr>dirs := insert (py ''out/cluster_3_model/CIF'') (insert (py ''out/cluster_3_model/PDB'') (dirs w)),
     files := (files w)
       (py ''out/cluster_3_model/PDB/cluster_3_model_001.pdb'' \<mapsto> [31, 139, 8],
        py ''out/cluster_3_model/CIF/cluster_3_model_001.cif'' \<mapsto> [31, 139, 8]),
     trace := trace w @
       [Print (Saved (py ''out/cluster_3_model/PDB/cluster_3_model_001.pdb'')),
        Print (Saved (py ''out/cluster_3_model/CIF/cluster_3_model_001.cif''))]\<rparr>"
proof -
  assume o: "out_dir a = py ''out''"
  have ok: "\<not> raise_for_status 200" by (simp add: raise_for_status_def)
  have g1: "http_get sample_env (py ''https://swissmodel.expasy.org/m/01.cif.gz'') = Response 200 [31, 139, 8]"
    by (rule sample_get_ok) simp
  have g2: "http_get sample_env (py ''https://swissmodel.expasy.org/m/01.pdb.gz'') = Response 200 [31, 139, 8]"
    by (rule sample_get_ok) simp
  have l: "lock_order sample_env = rev" by (simp add: sample_env_def)
  show ?thesis
    by (simp add: fetch_model_results_def fetch_refs_sample l
        download_and_extract_ok [OF g1 ok] download_and_extract_ok [OF g2 ok]
        sample_destinations [OF o cluster_number_medoid])
qed

lemma handle_future_simple:
  "handle_future a e None w = Some (Some TypeError, w)"
  "handle_future a e (Some (seq_id, None)) w = Some (None, w)"
  by (simp_all add: handle_future_def)

lemma sample_handle_medoid:
  "out_dir a = (py ''out'') \<Longrightarrow>
   handle_future a sample_env (Some ((py ''cluster_3_medoid''), Some (py ''P_cluster_3_medoid''))) w =
   Some (None, fetch_model_results a sample_env (py ''cluster_3_medoid'') sample_completed
     (w\<lparr>trace := trace w @ [Print (ProjectStarted (py ''P_cluster_3_medoid'') (py ''cluster_3_medoid''))] @
         [Sleep 10, Print (StatusFetchError (py ''P_cluster_3_medoid'')),
          Sleep 10, Print (JobStatus (py ''P_cluster_3_medoid'') (py ''cluster_3_medoid'') (py ''UNKNOWN'')),
          Sleep 10, Print (JobStatus (py ''P_cluster_3_medoid'') (py ''cluster_3_medoid'') (py ''COMPLETED''))]\<rparr>))"
  by (simp add: handle_future_def sample_env_def sample_monitor_medoid)

lemma sample_handle_hangs:
  "handle_future a sample_env (Some ((py ''cluster_3_hangs''), Some (py ''P_cluster_3_hangs''))) w = None"
  by (simp add: handle_future_def sample_env_def sample_monitor_hangs)

text \<open>
  Claim C1, at a sequence that is rate-limited at every attempt: \<open>submit_request\<close> waits
  10, 20, 30, 40 and 50 seconds and gives up after the fifth attempt, but it then returns
  \<open>None\<close>, not the pair of the sequence identifier and no project identifier. The
  orchestrator's unpacking raises \<open>TypeError\<close>: the run ends there, before the accepted
  sequence behind it is monitored, and also when the rate-limited sequence finishes last.
\<close>

theorem rate_limited_submission_ends_run:
  "submit_request (sample_post (py ''cluster_1_limited'')) (py ''cluster_1_limited'') =
     (None, [Print (RateLimitHit 10), Sleep 10, Print (RateLimitHit 20), Sleep 20,
             Print (RateLimitHit 30), Sleep 30, Print (RateLimitHit 40), Sleep 40,
             Print (RateLimitHit 50), Sleep 50]) \<and>
   process_sequences sample_api sample_env
     [((py ''cluster_1_limited''), (py ''MKV'')), ((py ''cluster_2_refused''), (py ''MKL'')),
      ((py ''cluster_3_medoid''), (py ''MGS''))] empty_world =
     Some (Some TypeError, empty_world\<lparr>trace := [Print (Loaded 3)]\<rparr>) \<and>
   map_option fst (process_sequences sample_api sample_env
     [((py ''cluster_2_refused''), (py ''MKL'')), ((py ''cluster_3_medoid''), (py ''MGS'')),
      ((py ''cluster_1_limited''), (py ''MKV''))] empty_world) = Some (Some TypeError)"
proof (intro conjI)
  show "submit_request (sample_post (py ''cluster_1_limited'')) (py ''cluster_1_limited'') =
     (None, [Print (RateLimitHit 10), Sleep 10, Print (RateLimitHit 20), Sleep 20,
             Print (RateLimitHit 30), Sleep 30, Print (RateLimitHit 40), Sleep 40,
             Print (RateLimitHit 50), Sleep 50])"
    by (rule sample_submit_limited)
  have o: "out_dir sample_api = (py ''out'')" by (simp add: sample_api_def)
  have s: "sequences sample_api \<noteq> []" by (simp add: sample_api_def)
  have l: "length (sequences sample_api) = 3" by (simp add: sample_api_def)
  have p: "http_post sample_env = sample_post" by (simp add: sample_env_def)
  have m: "submit_request (sample_post (py ''cluster_3_medoid'')) (py ''cluster_3_medoid'') =
      (Some ((py ''cluster_3_medoid''), Some (py ''P_cluster_3_medoid'')), [])"
    using sample_submit_accepted [of "py ''cluster_3_medoid''"] by (simp add: py_fold)
  show "process_sequences sample_api sample_env
     [((py ''cluster_1_limited''), (py ''MKV'')), ((py ''cluster_2_refused''), (py ''MKL'')),
      ((py ''cluster_3_medoid''), (py ''MGS''))] empty_world =
     Some (Some TypeError, empty_world\<lparr>trace := [Print (Loaded 3)]\<rparr>)"
    by (simp add: process_sequences_def s l p pooled_task_def sample_submit_limited
        handle_future_simple empty_world_def)
  show "map_option fst (process_sequences sample_api sample_env
     [((py ''cluster_2_refused''), (py ''MKL'')), ((py ''cluster_3_medoid''), (py ''MGS'')),
      ((py ''cluster_1_limited''), (py ''MKV''))] empty_world) = Some (Some TypeError)"
    by (simp add: process_sequences_def s l p pooled_task_def sample_submit_limited
        sample_submit_refused m sample_handle_medoid [OF o] handle_future_simple)
qed

lemma handle_future_monitored:
  assumes "pid \<noteq> []"
  shows "monitor_job_status (http_poll e pid) seq_id pid = None \<Longrightarrow>
           handle_future a e (Some (seq_id, Some pid)) w = None"
    and "monitor_job_status (http_poll e pid) seq_id pid = Some (Some j, tr) \<Longrightarrow>
           handle_future a e (Some (seq_id, Some pid)) w =
           Some (None, fetch_model_results a e seq_id j
             (w\<lparr>trace := trace w @ [Print (ProjectStarted pid seq_id)] @ tr\<rparr>))"
    and "monitor_job_status (http_poll e pid) seq_id pid = Some (None, tr) \<Longrightarrow>
           handle_future a e (Some (seq_id, Some pid)) w =
           Some (None, w\<lparr>trace := trace w @ [Print (ProjectStarted pid seq_id)] @ tr\<rparr>)"
  using assms by (simp_all add: handle_future_def)

text \<open>
  Claim C2, as amended. A pooled task is the submission alone: all it does is print rate
  limits and request errors and sleep. The loop over the finished submissions, run by the
  caller of \<open>process_sequences\<close> on the results of the pooled tasks in their order of
  arrival, does the rest for one sequence at a time. For a result without a project
  identifier it does nothing. For a result with one it monitors the job: when the monitor
  returns a summary it fetches the models of that summary, when the monitor returns no
  result it fetches nothing, and when the job never reaches a terminal state the loop
  never gets to any later result. Handling a list of results and then a second list is
  handling the second from the state the first has left; an exception in an earlier
  result ends the loop.
\<close>

theorem pooled_submit_sequential_monitor_fetch:
  "list_all submit_event (snd (pooled_task e item)) \<and>
   (sequences a \<noteq> [] \<longrightarrow>
      process_sequences a e arrival w =
        (case handle_futures a e (map (\<lambda>item. fst (pooled_task e item)) arrival)
                (w\<lparr>trace := trace w @ [Print (Loaded (length (sequences a)))]\<rparr>) of
           None \<Rightarrow> None
         | Some (Some x, w') \<Rightarrow> Some (Some x, w')
         | Some (None, w') \<Rightarrow> Some (None, w'\<lparr>trace := trace w' @ [Print AllProcessed]\<rparr>))) \<and>
   handle_future a e (Some (seq_id, None)) w = Some (None, w) \<and>
   handle_future a e (Some (seq_id, Some [])) w = Some (None, w) \<and>
   (pid \<noteq> [] \<and> monitor_job_status (http_poll e pid) seq_id pid = Some (Some j, tr) \<longrightarrow>
      handle_future a e (Some (seq_id, Some pid)) w =
        Some (None, fetch_model_results a e seq_id j
          (w\<lparr>trace := trace w @ [Print (ProjectStarted pid seq_id)] @ tr\<rparr>))) \<and>
   (pid \<noteq> [] \<and> monitor_job_status (http_poll e pid) seq_id pid = Some (None, tr) \<longrightarrow>
      handle_future a e (Some (seq_id, Some pid)) w =
        Some (None, w\<lparr>trace := trace w @ [Print (ProjectStarted pid seq_id)] @ tr\<rparr>)) \<and>
   (pid \<noteq> [] \<and> (\<forall>n. non_terminal (http_poll e pid n)) \<longrightarrow>
      handle_futures a e (Some (seq_id, Some pid) # rs) w = None) \<and>
   handle_futures a e (rs1 @ rs2) w =
     (case handle_futures a e rs1 w of
        None \<Rightarrow> None
      | Some (Some x, w') \<Rightarrow> Some (Some x, w')
      | Some (None, w') \<Rightarrow> handle_futures a e rs2 w')"
proof (intro conjI impI)
  show "list_all submit_event (snd (pooled_task e item))"
    unfolding pooled_task_def submit_request_def by (rule submit_loop_events) simp
next
  assume "sequences a \<noteq> []"
  then show "process_sequences a e arrival w =
        (case handle_futures a e (map (\<lambda>item. fst (pooled_task e item)) arrival)
                (w\<lparr>trace := trace w @ [Print (Loaded (length (sequences a)))]\<rparr>) of
           None \<Rightarrow> None
         | Some (Some x, w') \<Rightarrow> Some (Some x, w')
         | Some (None, w') \<Rightarrow> Some (None, w'\<lparr>trace := trace w' @ [Print AllProcessed]\<rparr>))"
    by (simp add: process_sequences_def)
next
  show "handle_future a e (Some (seq_id, None)) w = Some (None, w)"
    by (rule handle_future_simple)
next
  show "handle_future a e (Some (seq_id, Some [])) w = Some (None, w)"
    by (simp add: handle_future_def)
next
  assume "pid \<noteq> [] \<and> monitor_job_status (http_poll e pid) seq_id pid = Some (Some j, tr)"
  then show "handle_future a e (Some (seq_id, Some pid)) w =
        Some (None, fetch_model_results a e seq_id j
          (w\<lparr>trace := trace w @ [Print (ProjectStarted pid seq_id)] @ tr\<rparr>))"
    by (simp add: handle_future_monitored)
next
  assume "pid \<noteq> [] \<and> monitor_job_status (http_poll e pid) seq_id pid = Some (None, tr)"
  then show "handle_future a e (Some (seq_id, Some pid)) w =
        Some (None, w\<lparr>trace := trace w @ [Print (ProjectStarted pid seq_id)] @ tr\<rparr>)"
    by (simp add: handle_future_monitored)
next
  assume h: "pid \<noteq> [] \<and> (\<forall>n. non_terminal (http_poll e pid n))"
  then have "monitor_job_status (http_poll e pid) seq_id pid = None"
    by (simp add: monitor_job_status_def monitor_loop_never)
  with h have "handle_future a e (Some (seq_id, Some pid)) w = None"
    by (simp add: handle_future_monitored)
  then show "handle_futures a e (Some (seq_id, Some pid) # rs) w = None" by simp
next
  show "handle_futures a e (rs1 @ rs2) w =
     (case handle_futures a e rs1 w of
        None \<Rightarrow> None
      | Some (Some x, w') \<Rightarrow> Some (Some x, w')
      | Some (None, w') \<Rightarrow> handle_futures a e rs2 w')"
    by (rule handle_futures_append)
qed

lemma sample_monitor_failed:
  "monitor_job_status (sample_poll (py ''P_cluster_9_failed'')) (py ''cluster_9_failed'')
     (py ''P_cluster_9_failed'') =
   Some (None, [Sleep 10, Print (JobStatus (py ''P_cluster_9_failed'') (py ''cluster_9_failed'')
                  (py ''FAILED''))])"
proof -
  have "monitor_loop (sample_poll (py ''P_cluster_9_failed'')) (py ''cluster_9_failed'')
      (py ''P_cluster_9_failed'') 0 [] =
    Some (None, [] @ poll_events (py ''P_cluster_9_failed'') (py ''cluster_9_failed'')
      (sample_poll (py ''P_cluster_9_failed'') 0))"
    by (rule monitor_loop_failed [where code = 200
          and j = "\<lparr>status = Some (py ''FAILED''), models = None\<rparr>"])
       (simp_all add: sample_poll_def raise_for_status_def)
  then show ?thesis
    by (simp add: monitor_job_status_def poll_events_def sample_poll_def raise_for_status_def)
qed

lemma sample_pooled:
  "pooled_task sample_env (py ''cluster_3_hangs'', py ''MAA'') =
     (Some (py ''cluster_3_hangs'', Some (py ''P_cluster_3_hangs'')), [])"
  "pooled_task sample_env (py ''cluster_3_medoid'', py ''MGS'') =
     (Some (py ''cluster_3_medoid'', Some (py ''P_cluster_3_medoid'')), [])"
  using sample_submit_accepted [of "py ''cluster_3_hangs''"]
    sample_submit_accepted [of "py ''cluster_3_medoid''"]
  by (simp_all add: pooled_task_def sample_env_def py_fold)

theorem pooled_submit_sequential_monitor_fetch_witness:
  "handle_future single_api sample_env
     (Some (py ''cluster_3_medoid'', Some (py ''P_cluster_3_medoid''))) empty_world =
     Some (None, fetch_model_results single_api sample_env (py ''cluster_3_medoid'')
       sample_completed
       (empty_world\<lparr>trace := trace empty_world @
          [Print (ProjectStarted (py ''P_cluster_3_medoid'') (py ''cluster_3_medoid''))] @
          [Sleep 10, Print (StatusFetchError (py ''P_cluster_3_medoid'')),
           Sleep 10, Print (JobStatus (py ''P_cluster_3_medoid'') (py ''cluster_3_medoid'')
                       (py ''UNKNOWN'')),
           Sleep 10, Print (JobStatus (py ''P_cluster_3_medoid'') (py ''cluster_3_medoid'')
                       (py ''COMPLETED''))]\<rparr>)) \<and>
   handle_future single_api sample_env
     (Some (py ''cluster_9_failed'', Some (py ''P_cluster_9_failed''))) empty_world =
     Some (None, empty_world\<lparr>trace := trace empty_world @
          [Print (ProjectStarted (py ''P_cluster_9_failed'') (py ''cluster_9_failed''))] @
          [Sleep 10, Print (JobStatus (py ''P_cluster_9_failed'') (py ''cluster_9_failed'')
                       (py ''FAILED''))]\<rparr>) \<and>
   handle_futures hanging_api sample_env
     [Some (py ''cluster_3_hangs'', Some (py ''P_cluster_3_hangs'')),
      Some (py ''cluster_3_medoid'', Some (py ''P_cluster_3_medoid''))]
     (empty_world\<lparr>trace := trace empty_world @ [Print (Loaded (length (sequences hanging_api)))]\<rparr>)
     = None \<and>
   process_sequences hanging_api sample_env
     [(py ''cluster_3_hangs'', py ''MAA''), (py ''cluster_3_medoid'', py ''MGS'')] empty_world = None"
proof -
  have p: "http_poll sample_env = sample_poll" by (simp add: sample_env_def)
  have c: "py ''P_cluster_3_medoid'' \<noteq> [] \<and>
      monitor_job_status (http_poll sample_env (py ''P_cluster_3_medoid'')) (py ''cluster_3_medoid'')
        (py ''P_cluster_3_medoid'') =
      Some (Some sample_completed,
        [Sleep 10, Print (StatusFetchError (py ''P_cluster_3_medoid'')),
         Sleep 10, Print (JobStatus (py ''P_cluster_3_medoid'') (py ''cluster_3_medoid'')
                     (py ''UNKNOWN'')),
         Sleep 10, Print (JobStatus (py ''P_cluster_3_medoid'') (py ''cluster_3_medoid'')
                     (py ''COMPLETED''))])"
    by (simp add: p sample_monitor_medoid)
  have f: "py ''P_cluster_9_failed'' \<noteq> [] \<and>
      monitor_job_status (http_poll sample_env (py ''P_cluster_9_failed'')) (py ''cluster_9_failed'')
        (py ''P_cluster_9_failed'') =
      Some (None, [Sleep 10, Print (JobStatus (py ''P_cluster_9_failed'') (py ''cluster_9_failed'')
                     (py ''FAILED''))])"
    by (simp add: p sample_monitor_failed)
  have h: "py ''P_cluster_3_hangs'' \<noteq> [] \<and>
      (\<forall>n. non_terminal (http_poll sample_env (py ''P_cluster_3_hangs'') n))"
    by (simp add: p sample_poll_def non_terminal_def)
  have s: "sequences hanging_api \<noteq> []" by (simp add: hanging_api_def)
  have 1: "handle_future single_api sample_env
     (Some (py ''cluster_3_medoid'', Some (py ''P_cluster_3_medoid''))) empty_world =
     Some (None, fetch_model_results single_api sample_env (py ''cluster_3_medoid'')
       sample_completed
       (empty_world\<lparr>trace := trace empty_world @
          [Print (ProjectStarted (py ''P_cluster_3_medoid'') (py ''cluster_3_medoid''))] @
          [Sleep 10, Print (StatusFetchError (py ''P_cluster_3_medoid'')),
           Sleep 10, Print (JobStatus (py ''P_cluster_3_medoid'') (py ''cluster_3_medoid'')
                       (py ''UNKNOWN'')),
           Sleep 10, Print (JobStatus (py ''P_cluster_3_medoid'') (py ''cluster_3_medoid'')
                       (py ''COMPLETED''))]\<rparr>))"
    using pooled_submit_sequential_monitor_fetch [where a = single_api and e = sample_env
        and pid = "py ''P_cluster_3_medoid''" and seq_id = "py ''cluster_3_medoid''"
        and w = empty_world and j = sample_completed,
        THEN conjunct2, THEN conjunct2, THEN conjunct2, THEN conjunct2, THEN conjunct1] c
    by (rule mp)
  have 2: "handle_future single_api sample_env
     (Some (py ''cluster_9_failed'', Some (py ''P_cluster_9_failed''))) empty_world =
     Some (None, empty_world\<lparr>trace := trace empty_world @
          [Print (ProjectStarted (py ''P_cluster_9_failed'') (py ''cluster_9_failed''))] @
          [Sleep 10, Print (JobStatus (py ''P_cluster_9_failed'') (py ''cluster_9_failed'')
                       (py ''FAILED''))]\<rparr>)"
    using pooled_submit_sequential_monitor_fetch [where a = single_api and e = sample_env
        and pid = "py ''P_cluster_9_failed''" and seq_id = "py ''cluster_9_failed''"
        and w = empty_world,
        THEN conjunct2, THEN conjunct2, THEN conjunct2, THEN conjunct2, THEN conjunct2,
        THEN conjunct1] f
    by (rule mp)
  have 3: "handle_futures hanging_api sample_env
     [Some (py ''cluster_3_hangs'', Some (py ''P_cluster_3_hangs'')),
      Some (py ''cluster_3_medoid'', Some (py ''P_cluster_3_medoid''))]
     (empty_world\<lparr>trace := trace empty_world @ [Print (Loaded (length (sequences hanging_api)))]\<rparr>)
     = None"
    using pooled_submit_sequential_monitor_fetch [where a = hanging_api and e = sample_env
        and pid = "py ''P_cluster_3_hangs''" and seq_id = "py ''cluster_3_hangs''"
        and rs = "[Some (py ''cluster_3_medoid'', Some (py ''P_cluster_3_medoid''))]"
        and w = "empty_world\<lparr>trace := trace empty_world @
                   [Print (Loaded (length (sequences hanging_api)))]\<rparr>",
        THEN conjunct2, THEN conjunct2, THEN conjunct2, THEN conjunct2, THEN conjunct2,
        THEN conjunct2, THEN conjunct1] h
    by (rule mp)
  have pe: "process_sequences hanging_api sample_env
     [(py ''cluster_3_hangs'', py ''MAA''), (py ''cluster_3_medoid'', py ''MGS'')] empty_world =
     (case handle_futures hanging_api sample_env
              (map (\<lambda>item. fst (pooled_task sample_env item))
                 [(py ''cluster_3_hangs'', py ''MAA''), (py ''cluster_3_medoid'', py ''MGS'')])
              (empty_world\<lparr>trace := trace empty_world @
                 [Print (Loaded (length (sequences hanging_api)))]\<rparr>) of
           None \<Rightarrow> None
         | Some (Some x, w') \<Rightarrow> Some (Some x, w')
         | Some (None, w') \<Rightarrow> Some (None, w'\<lparr>trace := trace w' @ [Print AllProcessed]\<rparr>))"
    using pooled_submit_sequential_monitor_fetch [where a = hanging_api and e = sample_env
        and w = empty_world
        and arrival = "[(py ''cluster_3_hangs'', py ''MAA''), (py ''cluster_3_medoid'', py ''MGS'')]",
        THEN conjunct2, THEN conjunct1] s
    by (rule mp)
  have m: "map (\<lambda>item. fst (pooled_task sample_env item))
       [(py ''cluster_3_hangs'', py ''MAA''), (py ''cluster_3_medoid'', py ''MGS'')] =
     [Some (py ''cluster_3_hangs'', Some (py ''P_cluster_3_hangs'')),
      Some (py ''cluster_3_medoid'', Some (py ''P_cluster_3_medoid''))]"
    by (simp add: sample_pooled)
  have 4: "process_sequences hanging_api sample_env
     [(py ''cluster_3_hangs'', py ''MAA''), (py ''cluster_3_medoid'', py ''MGS'')] empty_world = None"
    unfolding pe m 3 by simp
  from 1 2 3 4 show ?thesis by (intro conjI)
qed

text \<open>
  Claim C2 as stated fails. Both pooled tasks of the second batch end with a project
  identifier and without having monitored anything. Alone, the second sequence is
  monitored and its two files are written; behind the first sequence, whose job never
  reaches a terminal state, it is never monitored, and \<open>process_sequences\<close> never returns.
\<close>

theorem later_pipeline_waits_for_earlier:
  "pooled_task sample_env (py ''cluster_3_hangs'', py ''MAA'') =
     (Some (py ''cluster_3_hangs'', Some (py ''P_cluster_3_hangs'')), []) \<and>
   pooled_task sample_env (py ''cluster_3_medoid'', py ''MGS'') =
     (Some (py ''cluster_3_medoid'', Some (py ''P_cluster_3_medoid'')), []) \<and>
   map_option fst
     (process_sequences single_api sample_env [(py ''cluster_3_medoid'', py ''MGS'')] empty_world) =
     Some None \<and>
   map_option (files \<circ> snd)
     (process_sequences single_api sample_env [(py ''cluster_3_medoid'', py ''MGS'')] empty_world) =
     Some [py ''out/cluster_3_model/PDB/cluster_3_model_001.pdb'' \<mapsto> [31, 139, 8],
           py ''out/cluster_3_model/CIF/cluster_3_model_001.cif'' \<mapsto> [31, 139, 8]] \<and>
   process_sequences hanging_api sample_env
     [(py ''cluster_3_hangs'', py ''MAA''), (py ''cluster_3_medoid'', py ''MGS'')] empty_world = None"
proof (intro conjI)
  show "pooled_task sample_env (py ''cluster_3_hangs'', py ''MAA'') =
     (Some (py ''cluster_3_hangs'', Some (py ''P_cluster_3_hangs'')), [])"
    by (rule sample_pooled)
  show "pooled_task sample_env (py ''cluster_3_medoid'', py ''MGS'') =
     (Some (py ''cluster_3_medoid'', Some (py ''P_cluster_3_medoid'')), [])"
    by (rule sample_pooled)
  have o: "out_dir single_api = py ''out''" by (simp add: single_api_def)
  have s: "sequences single_api \<noteq> []" by (simp add: single_api_def)
  show "map_option fst
     (process_sequences single_api sample_env [(py ''cluster_3_medoid'', py ''MGS'')] empty_world) =
     Some None"
    by (simp add: process_sequences_def s sample_pooled sample_handle_medoid [OF o])
  show "map_option (files \<circ> snd)
     (process_sequences single_api sample_env [(py ''cluster_3_medoid'', py ''MGS'')] empty_world) =
     Some [py ''out/cluster_3_model/PDB/cluster_3_model_001.pdb'' \<mapsto> [31, 139, 8],
           py ''out/cluster_3_model/CIF/cluster_3_model_001.cif'' \<mapsto> [31, 139, 8]]"
    by (simp add: process_sequences_def s sample_pooled sample_handle_medoid [OF o]
        sample_fetch_medoid [OF o] empty_world_def)
  have h: "sequences hanging_api \<noteq> []" by (simp add: hanging_api_def)
  show "process_sequences hanging_api sample_env
     [(py ''cluster_3_hangs'', py ''MAA''), (py ''cluster_3_medoid'', py ''MGS'')] empty_world = None"
    by (simp add: process_sequences_def h sample_pooled sample_handle_hangs)
qed

end
